theory Spec2Isabelle
  imports Main "HOL-Library.Sublist"
begin

section \<open>JavaScript strings\<close>

text \<open>
  The two generators of the repository, \<^verbatim>\<open>scripts/generate-crud.js\<close> and the
  ES-module variant kept under \<^verbatim>\<open>unnamed/part_000\<close>, are string programs. A
  JavaScript string is modelled as a \<^typ>\<open>string\<close>, one \<^typ>\<open>char\<close> per code unit; the
  case conversions and the white space of \<^verbatim>\<open>trim\<close> are those of ASCII, so the model
  covers ASCII input. Where the two files give one name to different code, the
  definition from the first file carries the suffix \<open>_scripts\<close> and the one from the
  second the suffix \<open>_part000\<close>.
\<close>

abbreviation sq :: string where
  "sq \<equiv> [CHR 0x27]"

text \<open>\<^verbatim>\<open>s.includes(p)\<close>: \<open>p\<close> occurs in \<open>s\<close> as a contiguous run.\<close>

definition js_includes :: "string \<Rightarrow> string \<Rightarrow> bool" where
  "js_includes s p = sublist p s"

text \<open>\<^verbatim>\<open>s.split(c)\<close> for a one-character separator; the result is never empty.\<close>

fun js_split :: "char \<Rightarrow> string \<Rightarrow> string list" where
  "js_split c [] = [[]]"
| "js_split c (x # xs) =
     (if x = c then [] # js_split c xs
      else (case js_split c xs of
              [] \<Rightarrow> [[x]]
            | seg # segs \<Rightarrow> (x # seg) # segs))"

text \<open>\<^verbatim>\<open>xs.join(sep)\<close>.\<close>

fun js_join :: "string \<Rightarrow> string list \<Rightarrow> string" where
  "js_join sep [] = []"
| "js_join sep [x] = x"
| "js_join sep (x # y # ys) = x @ sep @ js_join sep (y # ys)"

text \<open>\<^verbatim>\<open>s.replace(p, r)\<close> with a string pattern: only the first occurrence.\<close>

fun js_replace :: "string \<Rightarrow> string \<Rightarrow> string \<Rightarrow> string" where
  "js_replace [] p r = (if p = [] then r else [])"
| "js_replace (x # xs) p r =
     (if prefix p (x # xs) then r @ drop (length p) (x # xs)
      else x # js_replace xs p r)"

definition isSpace :: "char \<Rightarrow> bool" where
  "isSpace c = (c \<in> set [CHR 0x09, CHR 0x0A, CHR 0x0B, CHR 0x0C, CHR 0x0D, CHR '' ''])"

definition js_trim :: "string \<Rightarrow> string" where
  "js_trim s = rev (dropWhile isSpace (rev (dropWhile isSpace s)))"

definition upperLetters :: string where
  "upperLetters = ''ABCDEFGHIJKLMNOPQRSTUVWXYZ''"

definition lowerLetters :: string where
  "lowerLetters = ''abcdefghijklmnopqrstuvwxyz''"

definition lowerChar :: "char \<Rightarrow> char" where
  "lowerChar c = (case map_of (zip upperLetters lowerLetters) c of Some d \<Rightarrow> d | None \<Rightarrow> c)"

definition upperChar :: "char \<Rightarrow> char" where
  "upperChar c = (case map_of (zip lowerLetters upperLetters) c of Some d \<Rightarrow> d | None \<Rightarrow> c)"

definition toLowerCase :: "string \<Rightarrow> string" where
  "toLowerCase s = map lowerChar s"

definition toUpperCase :: "string \<Rightarrow> string" where
  "toUpperCase s = map upperChar s"

text \<open>\<^verbatim>\<open>xs[i]\<close>: \<^verbatim>\<open>undefined\<close> (here \<open>None\<close>) outside the array.\<close>

definition js_index :: "'a list \<Rightarrow> nat \<Rightarrow> 'a option" where
  "js_index xs i = (if i < length xs then Some (xs ! i) else None)"

text \<open>A number in a template literal: its decimal digits.\<close>

definition digitChar :: "nat \<Rightarrow> char" where
  "digitChar d = (''0123456789'' ! (d mod 10))"

function show_nat :: "nat \<Rightarrow> string" where
  "show_nat n = (if n < 10 then [digitChar n] else show_nat (n div 10) @ [digitChar (n mod 10)])"
  by pat_completeness auto
termination
  by (relation "measure (\<lambda>n. n)") auto

declare show_nat.simps [simp del]

definition show_bool :: "bool \<Rightarrow> string" where
  "show_bool b = (if b then ''true'' else ''false'')"

section \<open>Errors\<close>

text \<open>
  \<open>UsageError\<close> is the \<^verbatim>\<open>process.exit(1)\<close> after the usage message; \<open>TypeError\<close>
  is what the engine throws when a method is called on \<^verbatim>\<open>undefined\<close>.
\<close>

datatype error = UsageError | TypeError

fun collect :: "(error + 'a) list \<Rightarrow> error + 'a list" where
  "collect [] = Inr []"
| "collect (Inl e # rs) = Inl e"
| "collect (Inr v # rs) = (case collect rs of Inl e \<Rightarrow> Inl e | Inr vs \<Rightarrow> Inr (v # vs))"

section \<open>Name derivation (both files)\<close>

definition toPascalCase :: "string \<Rightarrow> string" where
  "toPascalCase str = toUpperCase (take 1 str) @ drop 1 str"

definition toCamelCase :: "string \<Rightarrow> string" where
  "toCamelCase str = toLowerCase (take 1 str) @ drop 1 str"

text \<open>
  \<^verbatim>\<open>str.replace(/([A-Z])/g, '_$1').toLowerCase().replace(/^_/, '')\<close>, only in
  \<^verbatim>\<open>scripts/generate-crud.js\<close>.
\<close>

definition underscoreCapitals :: "string \<Rightarrow> string" where
  "underscoreCapitals str =
     concat (map (\<lambda>c. if c \<in> set upperLetters then [CHR ''_'', c] else [c]) str)"

definition stripLeadingUnderscore :: "string \<Rightarrow> string" where
  "stripLeadingUnderscore s = (case s of [] \<Rightarrow> [] | c # cs \<Rightarrow> if c = CHR ''_'' then cs else c # cs)"

definition toSnakeCase :: "string \<Rightarrow> string" where
  "toSnakeCase str = stripLeadingUnderscore (toLowerCase (underscoreCapitals str))"

section \<open>The generator of \<^verbatim>\<open>unnamed/part_000\<close>\<close>

subsection \<open>Field parsing\<close>

record field =
  name :: string
  type :: string
  isOptional :: bool

text \<open>
  \<^verbatim>\<open>const [name, type] = field.trim().split(':')\<close>: the first two segments, each
  \<^verbatim>\<open>undefined\<close> when missing; \<^verbatim>\<open>type || 'string'\<close> replaces a missing or empty type.
\<close>

definition parseField_part000 :: "string \<Rightarrow> error + field" where
  "parseField_part000 fld =
     (let parts = js_split (CHR '':'') (js_trim fld) in
      case js_index parts 0 of
        None \<Rightarrow> Inl TypeError
      | Some nm \<Rightarrow>
          Inr \<lparr> name = js_replace nm ''?'' [],
                type = (case js_index parts 1 of
                          None \<Rightarrow> ''string''
                        | Some ty \<Rightarrow> if ty = [] then ''string'' else ty),
                isOptional = js_includes nm ''?'' \<rparr>)"

definition parseFields_part000 :: "string \<Rightarrow> error + field list" where
  "parseFields_part000 fieldsString =
     collect (map parseField_part000 (js_split (CHR '','') fieldsString))"

subsection \<open>Type tables\<close>

text \<open>
  The tables are object literals, read with \<^verbatim>\<open>typeMap[key] || 'string'\<close>. A property
  read falls back to the properties every object inherits, so a read can yield a
  function or the prototype object instead of a string.
\<close>

datatype js_value = Str string | NativeFunction string | ObjectPrototype

definition inherited :: "(string \<times> js_value) list" where
  "inherited =
     [(''constructor'', NativeFunction ''Object''),
      (''__defineGetter__'', NativeFunction ''__defineGetter__''),
      (''__defineSetter__'', NativeFunction ''__defineSetter__''),
      (''hasOwnProperty'', NativeFunction ''hasOwnProperty''),
      (''__lookupGetter__'', NativeFunction ''__lookupGetter__''),
      (''__lookupSetter__'', NativeFunction ''__lookupSetter__''),
      (''isPrototypeOf'', NativeFunction ''isPrototypeOf''),
      (''propertyIsEnumerable'', NativeFunction ''propertyIsEnumerable''),
      (''toString'', NativeFunction ''toString''),
      (''valueOf'', NativeFunction ''valueOf''),
      (''__proto__'', ObjectPrototype),
      (''toLocaleString'', NativeFunction ''toLocaleString'')]"

definition js_get :: "(string \<times> string) list \<Rightarrow> string \<Rightarrow> js_value option" where
  "js_get obj key =
     (case map_of obj key of
        Some v \<Rightarrow> Some (Str v)
      | None \<Rightarrow> map_of inherited key)"

definition truthy :: "js_value \<Rightarrow> bool" where
  "truthy v = (case v of Str s \<Rightarrow> s \<noteq> [] | _ \<Rightarrow> True)"

definition js_or :: "js_value option \<Rightarrow> js_value \<Rightarrow> js_value" where
  "js_or a b = (case a of None \<Rightarrow> b | Some v \<Rightarrow> if truthy v then v else b)"

text \<open>The text a value contributes to a template literal.\<close>

definition js_toString :: "js_value \<Rightarrow> string" where
  "js_toString v =
     (case v of
        Str s \<Rightarrow> s
      | NativeFunction f \<Rightarrow> ''function '' @ f @ ''() { [native code] }''
      | ObjectPrototype \<Rightarrow> ''[object Object]'')"

definition typeMap_ts :: "(string \<times> string) list" where
  "typeMap_ts =
     [(''string'', ''string''), (''number'', ''number''), (''boolean'', ''boolean''),
      (''date'', ''Date''), (''uuid'', ''string''), (''text'', ''string''),
      (''int'', ''number''), (''float'', ''number''), (''decimal'', ''number'')]"

definition typeMap_orm :: "(string \<times> string) list" where
  "typeMap_orm =
     [(''string'', ''varchar''), (''number'', ''numeric''), (''boolean'', ''boolean''),
      (''date'', ''timestamp''), (''uuid'', ''uuid''), (''text'', ''text''),
      (''int'', ''int''), (''float'', ''float''), (''decimal'', ''decimal'')]"

definition getTypeScriptType :: "string \<Rightarrow> js_value" where
  "getTypeScriptType ty = js_or (js_get typeMap_ts (toLowerCase ty)) (Str ''string'')"

definition getTypeORMType :: "string \<Rightarrow> js_value" where
  "getTypeORMType ty = js_or (js_get typeMap_orm (toLowerCase ty)) (Str ''varchar'')"

subsection \<open>Emitted texts\<close>

definition interfaceField :: \<open>field \<Rightarrow> string\<close> where
  \<open>interfaceField f =
     ''  '' @ name f @ (if isOptional f then ''?'' else []) @ '': '' @ js_toString (getTypeScriptType (type f)) @ '';''\<close>

definition interfaceContent :: \<open>string \<Rightarrow> field list \<Rightarrow> string\<close> where
  \<open>interfaceContent entityPascal flds =
     ''export interface '' @ entityPascal @ '' {\<newline>'' @
     ''  id: string;\<newline>'' @
     js_join ''\<newline>'' (map interfaceField flds) @ ''\<newline>'' @
     ''  createdAt: Date;\<newline>'' @
     ''  updatedAt: Date;\<newline>'' @
     ''}\<newline>'' @
     ''\<newline>'' @
     ''export interface Create'' @ entityPascal @ ''Dto {\<newline>'' @
     js_join ''\<newline>'' (map interfaceField flds) @ ''\<newline>'' @
     ''}\<newline>'' @
     ''\<newline>'' @
     ''export interface Update'' @ entityPascal @ ''Dto {\<newline>'' @
     js_join ''\<newline>'' (map interfaceField flds) @ ''\<newline>'' @
     ''}\<newline>''\<close>

definition serviceContent :: \<open>string \<Rightarrow> string \<Rightarrow> string \<Rightarrow> string\<close> where
  \<open>serviceContent entityName entityPascal entityCamel =
     ''import { Injectable } from '@nestjs/common';\<newline>'' @
     ''import { InjectRepository } from '@nestjs/typeorm';\<newline>'' @
     ''import { Repository } from 'typeorm';\<newline>'' @
     ''import { '' @ entityPascal @ '', Create'' @ entityPascal @ ''Dto, Update'' @ entityPascal @ ''Dto } from './'' @ entityName @ ''.interface';\<newline>'' @
     ''\<newline>'' @
     ''@Injectable()\<newline>'' @
     ''export class '' @ entityPascal @ ''Service {\<newline>'' @
     ''  constructor(\<newline>'' @
     ''    @InjectRepository('' @ entityPascal @ '')\<newline>'' @
     ''    private readonly '' @ entityCamel @ ''Repository: Repository<'' @ entityPascal @ ''>,\<newline>'' @
     ''  ) {}\<newline>'' @
     ''\<newline>'' @
     ''  async create(createDto: Create'' @ entityPascal @ ''Dto): Promise<'' @ entityPascal @ ''> {\<newline>'' @
     ''    const '' @ entityCamel @ '' = this.'' @ entityCamel @ ''Repository.create(createDto);\<newline>'' @
     ''    return await this.'' @ entityCamel @ ''Repository.save('' @ entityCamel @ '');\<newline>'' @
     ''  }\<newline>'' @
     ''\<newline>'' @
     ''  async findAll(): Promise<'' @ entityPascal @ ''[]> {\<newline>'' @
     ''    return await this.'' @ entityCamel @ ''Repository.find();\<newline>'' @
     ''  }\<newline>'' @
     ''\<newline>'' @
     ''  async findOne(id: string): Promise<'' @ entityPascal @ '' | null> {\<newline>'' @
     ''    return await this.'' @ entityCamel @ ''Repository.findOne({ where: { id } });\<newline>'' @
     ''  }\<newline>'' @
     ''\<newline>'' @
     ''  async update(id: string, updateDto: Update'' @ entityPascal @ ''Dto): Promise<'' @ entityPascal @ '' | null> {\<newline>'' @
     ''    await this.'' @ entityCamel @ ''Repository.update(id, updateDto);\<newline>'' @
     ''    return await this.findOne(id);\<newline>'' @
     ''  }\<newline>'' @
     ''\<newline>'' @
     ''  async remove(id: string): Promise<void> {\<newline>'' @
     ''    await this.'' @ entityCamel @ ''Repository.delete(id);\<newline>'' @
     ''  }\<newline>'' @
     ''}\<newline>''\<close>

definition entityField :: \<open>field \<Rightarrow> string\<close> where
  \<open>entityField f =
     ''  @Column({ type: '' @ sq @ js_toString (getTypeORMType (type f)) @ sq @ '', nullable: '' @ show_bool (isOptional f) @ '' })\<newline>'' @
     ''  '' @ name f @ (if isOptional f then ''?'' else []) @ '': '' @ js_toString (getTypeScriptType (type f)) @ '';''\<close>

definition entityContent :: \<open>string \<Rightarrow> string \<Rightarrow> field list \<Rightarrow> string\<close> where
  \<open>entityContent entityPascal entityCamel flds =
     ''import { Entity, PrimaryGeneratedColumn, Column, CreateDateColumn, UpdateDateColumn } from 'typeorm';\<newline>'' @
     ''\<newline>'' @
     ''@Entity('' @ sq @ entityCamel @ ''s')\<newline>'' @
     ''export class '' @ entityPascal @ '' {\<newline>'' @
     ''  @PrimaryGeneratedColumn('uuid')\<newline>'' @
     ''  id: string;\<newline>'' @
     ''\<newline>'' @
     js_join ''\<newline>'' (map entityField flds) @ ''\<newline>'' @
     ''\<newline>'' @
     ''  @CreateDateColumn()\<newline>'' @
     ''  createdAt: Date;\<newline>'' @
     ''\<newline>'' @
     ''  @UpdateDateColumn()\<newline>'' @
     ''  updatedAt: Date;\<newline>'' @
     ''}\<newline>''\<close>

definition controllerContent :: \<open>string \<Rightarrow> string \<Rightarrow> string \<Rightarrow> string\<close> where
  \<open>controllerContent entityName entityPascal entityCamel =
     ''import { Controller, Get, Post, Put, Delete, Param, Body, HttpCode, HttpStatus } from '@nestjs/common';\<newline>'' @
     ''import { '' @ entityPascal @ ''Service } from './'' @ entityName @ ''.service';\<newline>'' @
     ''import { Create'' @ entityPascal @ ''Dto, Update'' @ entityPascal @ ''Dto } from './'' @ entityName @ ''.interface';\<newline>'' @
     ''\<newline>'' @
     ''@Controller('' @ sq @ entityCamel @ ''s')\<newline>'' @
     ''export class '' @ entityPascal @ ''Controller {\<newline>'' @
     ''  constructor(private readonly '' @ entityCamel @ ''Service: '' @ entityPascal @ ''Service) {}\<newline>'' @
     ''\<newline>'' @
     ''  @Post()\<newline>'' @
     ''  @HttpCode(HttpStatus.CREATED)\<newline>'' @
     ''  create(@Body() create'' @ entityPascal @ ''Dto: Create'' @ entityPascal @ ''Dto) {\<newline>'' @
     ''    return this.'' @ entityCamel @ ''Service.create(create'' @ entityPascal @ ''Dto);\<newline>'' @
     ''  }\<newline>'' @
     ''\<newline>'' @
     ''  @Get()\<newline>'' @
     ''  findAll() {\<newline>'' @
     ''    return this.'' @ entityCamel @ ''Service.findAll();\<newline>'' @
     ''  }\<newline>'' @
     ''\<newline>'' @
     ''  @Get(':id')\<newline>'' @
     ''  findOne(@Param('id') id: string) {\<newline>'' @
     ''    return this.'' @ entityCamel @ ''Service.findOne(id);\<newline>'' @
     ''  }\<newline>'' @
     ''\<newline>'' @
     ''  @Put(':id')\<newline>'' @
     ''  update(@Param('id') id: string, @Body() update'' @ entityPascal @ ''Dto: Update'' @ entityPascal @ ''Dto) {\<newline>'' @
     ''    return this.'' @ entityCamel @ ''Service.update(id, update'' @ entityPascal @ ''Dto);\<newline>'' @
     ''  }\<newline>'' @
     ''\<newline>'' @
     ''  @Delete(':id')\<newline>'' @
     ''  @HttpCode(HttpStatus.NO_CONTENT)\<newline>'' @
     ''  remove(@Param('id') id: string) {\<newline>'' @
     ''    return this.'' @ entityCamel @ ''Service.remove(id);\<newline>'' @
     ''  }\<newline>'' @
     ''}\<newline>''\<close>

definition migrationField :: \<open>field \<Rightarrow> string\<close> where
  \<open>migrationField f =
     ''          {\<newline>'' @
     ''            name: '' @ sq @ name f @ sq @ '',\<newline>'' @
     ''            type: '' @ sq @ js_toString (getTypeORMType (type f)) @ sq @ '',\<newline>'' @
     ''            isNullable: '' @ show_bool (isOptional f) @ '',\<newline>'' @
     ''          },''\<close>

definition migrationContent :: \<open>string \<Rightarrow> string \<Rightarrow> field list \<Rightarrow> nat \<Rightarrow> string\<close> where
  \<open>migrationContent entityPascal entityCamel flds timestamp =
     ''import { MigrationInterface, QueryRunner, Table } from 'typeorm';\<newline>'' @
     ''\<newline>'' @
     ''export class Create'' @ entityPascal @ ''Table'' @ show_nat timestamp @ '' implements MigrationInterface {\<newline>'' @
     ''  name = 'Create'' @ entityPascal @ ''Table'' @ show_nat timestamp @ sq @ '';\<newline>'' @
     ''\<newline>'' @
     ''  public async up(queryRunner: QueryRunner): Promise<void> {\<newline>'' @
     ''    await queryRunner.createTable(\<newline>'' @
     ''      new Table({\<newline>'' @
     ''        name: '' @ sq @ entityCamel @ ''s',\<newline>'' @
     ''        columns: [\<newline>'' @
     ''          {\<newline>'' @
     ''            name: 'id',\<newline>'' @
     ''            type: 'uuid',\<newline>'' @
     ''            isPrimary: true,\<newline>'' @
     ''            generationStrategy: 'uuid',\<newline>'' @
     ''            default: 'uuid_generate_v4()',\<newline>'' @
     ''          },\<newline>'' @
     js_join ''\<newline>'' (map migrationField flds) @ ''\<newline>'' @
     ''          {\<newline>'' @
     ''            name: 'createdAt',\<newline>'' @
     ''            type: 'timestamp',\<newline>'' @
     ''            default: 'now()',\<newline>'' @
     ''          },\<newline>'' @
     ''          {\<newline>'' @
     ''            name: 'updatedAt',\<newline>'' @
     ''            type: 'timestamp',\<newline>'' @
     ''            default: 'now()',\<newline>'' @
     ''          },\<newline>'' @
     ''        ],\<newline>'' @
     ''      }),\<newline>'' @
     ''      true,\<newline>'' @
     ''    );\<newline>'' @
     ''  }\<newline>'' @
     ''\<newline>'' @
     ''  public async down(queryRunner: QueryRunner): Promise<void> {\<newline>'' @
     ''    await queryRunner.dropTable('' @ sq @ entityCamel @ ''s');\<newline>'' @
     ''  }\<newline>'' @
     ''}\<newline>''\<close>

section \<open>The generator of \<^verbatim>\<open>scripts/generate-crud.js\<close>\<close>

subsection \<open>Field parsing\<close>

record field_scripts = field +
  decorators :: "string list"

text \<open>The \<^verbatim>\<open>switch\<close> on the lower-cased type: the final type and the decorators pushed.\<close>

definition resolveType_scripts :: \<open>string \<Rightarrow> string \<times> string list\<close> where
  \<open>resolveType_scripts cleanType =
     (let t = toLowerCase cleanType in
      if t = ''string'' then (''string'', [''@Column()''])
      else if t = ''number'' then (''number'', [''@Column({ type: "int" })''])
      else if t = ''boolean'' then (''boolean'', [''@Column({ type: "boolean" })''])
      else if t = ''date'' then (''Date'', [''@Column({ type: "timestamp" })''])
      else (cleanType, [''@Column()'']))\<close>

text \<open>
  \<^verbatim>\<open>decorators[0] = decorators[0].replace(')', ', { nullable: true })')\<close> and the
  repair of \<^verbatim>\<open>@Column(,\<close> that follows it.
\<close>

definition markNullable :: \<open>string list \<Rightarrow> error + string list\<close> where
  \<open>markNullable decs =
     (case decs of
        [] \<Rightarrow> Inl TypeError
      | d # ds \<Rightarrow>
          Inr (js_replace (js_replace d '')'' '', { nullable: true })'') ''@Column(,'' ''@Column('' # ds))\<close>

definition parseField_scripts :: \<open>string \<Rightarrow> error + field_scripts\<close> where
  \<open>parseField_scripts fld =
     (let parts = js_split (CHR '':'') (js_trim fld) in
      case js_index parts 1 of
        None \<Rightarrow> Inl TypeError
      | Some ty \<Rightarrow>
          (let isOpt = js_includes ty ''?'';
               cleanType = js_replace ty ''?'' [];
               (finalType, decs) = resolveType_scripts cleanType
           in case (if isOpt then markNullable decs else Inr decs) of
                Inl e \<Rightarrow> Inl e
              | Inr decs' \<Rightarrow>
                  (case js_index parts 0 of
                     None \<Rightarrow> Inl TypeError
                   | Some nm \<Rightarrow>
                       Inr \<lparr> name = js_trim nm, type = finalType, isOptional = isOpt,
                             decorators = decs' \<rparr>)))\<close>

definition parseFields_scripts :: \<open>string \<Rightarrow> error + field_scripts list\<close> where
  \<open>parseFields_scripts fieldsString =
     collect (map parseField_scripts (js_split (CHR '','') fieldsString))\<close>

subsection \<open>Emitted texts\<close>

definition entityField_scripts :: \<open>field_scripts \<Rightarrow> string\<close> where
  \<open>entityField_scripts f =
     ''  '' @ js_join ''\<newline>  '' (decorators f) @ ''\<newline>'' @
     ''  '' @ name f @ '': '' @ type f @ (if isOptional f then '' | null'' else []) @ '';\<newline>'' @
     ''\<newline>''\<close>

definition generateEntity :: \<open>string \<Rightarrow> field_scripts list \<Rightarrow> string\<close> where
  \<open>generateEntity entityName flds =
     (let pascalCase = toPascalCase entityName;
          snakeCase = toSnakeCase pascalCase
      in foldl (\<lambda>entityContent f. entityContent @ entityField_scripts f)
           (''import { Entity, PrimaryGeneratedColumn, Column } from 'typeorm';\<newline>'' @
            ''\<newline>'' @
            ''@Entity('' @ sq @ snakeCase @ sq @ '')\<newline>'' @
            ''export class '' @ pascalCase @ '' {\<newline>'' @
            ''  @PrimaryGeneratedColumn()\<newline>'' @
            ''  id: number;\<newline>'' @
            ''\<newline>'')
           flds @ ''}'')\<close>

definition generateModule :: \<open>string \<Rightarrow> string\<close> where
  \<open>generateModule entityName =
     (let pascalCase = toPascalCase entityName in
      ''import { Module } from '@nestjs/common';\<newline>'' @
      ''import { TypeOrmModule } from '@nestjs/typeorm';\<newline>'' @
      ''import { '' @ pascalCase @ '' } from './'' @ entityName @ ''.entity';\<newline>'' @
      ''import { '' @ pascalCase @ ''Service } from './'' @ entityName @ ''.service';\<newline>'' @
      ''import { '' @ pascalCase @ ''Controller } from './'' @ entityName @ ''.controller';\<newline>'' @
      ''\<newline>'' @
      ''@Module({\<newline>'' @
      ''  imports: [TypeOrmModule.forFeature(['' @ pascalCase @ ''])],\<newline>'' @
      ''  controllers: ['' @ pascalCase @ ''Controller],\<newline>'' @
      ''  providers: ['' @ pascalCase @ ''Service],\<newline>'' @
      ''  exports: ['' @ pascalCase @ ''Service],\<newline>'' @
      ''})\<newline>'' @
      ''export class '' @ pascalCase @ ''Module {}'')\<close>

definition generateService :: \<open>string \<Rightarrow> string\<close> where
  \<open>generateService entityName =
     (let pascalCase = toPascalCase entityName;
          camelCase = toCamelCase entityName
      in
      ''import { Injectable } from '@nestjs/common';\<newline>'' @
      ''import { InjectRepository } from '@nestjs/typeorm';\<newline>'' @
      ''import { Repository } from 'typeorm';\<newline>'' @
      ''import { '' @ pascalCase @ '' } from './'' @ entityName @ ''.entity';\<newline>'' @
      ''import { Create'' @ pascalCase @ ''Dto } from './dto/create-'' @ entityName @ ''.dto';\<newline>'' @
      ''import { Update'' @ pascalCase @ ''Dto } from './dto/update-'' @ entityName @ ''.dto';\<newline>'' @
      ''\<newline>'' @
      ''@Injectable()\<newline>'' @
      ''export class '' @ pascalCase @ ''Service {\<newline>'' @
      ''  constructor(\<newline>'' @
      ''    @InjectRepository('' @ pascalCase @ '')\<newline>'' @
      ''    private readonly '' @ camelCase @ ''Repository: Repository<'' @ pascalCase @ ''>,\<newline>'' @
      ''  ) {}\<newline>'' @
      ''\<newline>'' @
      ''  async create(create'' @ pascalCase @ ''Dto: Create'' @ pascalCase @ ''Dto): Promise<'' @ pascalCase @ ''> {\<newline>'' @
      ''    const '' @ camelCase @ '' = this.'' @ camelCase @ ''Repository.create(create'' @ pascalCase @ ''Dto);\<newline>'' @
      ''    return this.'' @ camelCase @ ''Repository.save('' @ camelCase @ '');\<newline>'' @
      ''  }\<newline>'' @
      ''\<newline>'' @
      ''  async findAll(): Promise<'' @ pascalCase @ ''[]> {\<newline>'' @
      ''    return this.'' @ camelCase @ ''Repository.find();\<newline>'' @
      ''  }\<newline>'' @
      ''\<newline>'' @
      ''  async findOne(id: number): Promise<'' @ pascalCase @ ''> {\<newline>'' @
      ''    return this.'' @ camelCase @ ''Repository.findOne({ where: { id } });\<newline>'' @
      ''  }\<newline>'' @
      ''\<newline>'' @
      ''  async update(id: number, update'' @ pascalCase @ ''Dto: Update'' @ pascalCase @ ''Dto): Promise<'' @ pascalCase @ ''> {\<newline>'' @
      ''    await this.'' @ camelCase @ ''Repository.update(id, update'' @ pascalCase @ ''Dto);\<newline>'' @
      ''    return this.findOne(id);\<newline>'' @
      ''  }\<newline>'' @
      ''\<newline>'' @
      ''  async remove(id: number): Promise<void> {\<newline>'' @
      ''    await this.'' @ camelCase @ ''Repository.delete(id);\<newline>'' @
      ''  }\<newline>'' @
      ''}'')\<close>

definition generateController :: \<open>string \<Rightarrow> string\<close> where
  \<open>generateController entityName =
     (let pascalCase = toPascalCase entityName;
          camelCase = toCamelCase entityName;
          snakeCase = toSnakeCase pascalCase
      in
      ''import {\<newline>'' @
      ''  Controller,\<newline>'' @
      ''  Get,\<newline>'' @
      ''  Post,\<newline>'' @
      ''  Body,\<newline>'' @
      ''  Patch,\<newline>'' @
      ''  Param,\<newline>'' @
      ''  Delete,\<newline>'' @
      ''  ParseIntPipe,\<newline>'' @
      ''} from '@nestjs/common';\<newline>'' @
      ''import { '' @ pascalCase @ ''Service } from './'' @ entityName @ ''.service';\<newline>'' @
      ''import { Create'' @ pascalCase @ ''Dto } from './dto/create-'' @ entityName @ ''.dto';\<newline>'' @
      ''import { Update'' @ pascalCase @ ''Dto } from './dto/update-'' @ entityName @ ''.dto';\<newline>'' @
      ''\<newline>'' @
      ''@Controller('' @ sq @ snakeCase @ sq @ '')\<newline>'' @
      ''export class '' @ pascalCase @ ''Controller {\<newline>'' @
      ''  constructor(private readonly '' @ camelCase @ ''Service: '' @ pascalCase @ ''Service) {}\<newline>'' @
      ''\<newline>'' @
      ''  @Post()\<newline>'' @
      ''  create(@Body() create'' @ pascalCase @ ''Dto: Create'' @ pascalCase @ ''Dto) {\<newline>'' @
      ''    return this.'' @ camelCase @ ''Service.create(create'' @ pascalCase @ ''Dto);\<newline>'' @
      ''  }\<newline>'' @
      ''\<newline>'' @
      ''  @Get()\<newline>'' @
      ''  findAll() {\<newline>'' @
      ''    return this.'' @ camelCase @ ''Service.findAll();\<newline>'' @
      ''  }\<newline>'' @
      ''\<newline>'' @
      ''  @Get(':id')\<newline>'' @
      ''  findOne(@Param('id', ParseIntPipe) id: number) {\<newline>'' @
      ''    return this.'' @ camelCase @ ''Service.findOne(id);\<newline>'' @
      ''  }\<newline>'' @
      ''\<newline>'' @
      ''  @Patch(':id')\<newline>'' @
      ''  update(\<newline>'' @
      ''    @Param('id', ParseIntPipe) id: number,\<newline>'' @
      ''    @Body() update'' @ pascalCase @ ''Dto: Update'' @ pascalCase @ ''Dto,\<newline>'' @
      ''  ) {\<newline>'' @
      ''    return this.'' @ camelCase @ ''Service.update(id, update'' @ pascalCase @ ''Dto);\<newline>'' @
      ''  }\<newline>'' @
      ''\<newline>'' @
      ''  @Delete(':id')\<newline>'' @
      ''  remove(@Param('id', ParseIntPipe) id: number) {\<newline>'' @
      ''    return this.'' @ camelCase @ ''Service.remove(id);\<newline>'' @
      ''  }\<newline>'' @
      ''}'')\<close>

text \<open>A JavaScript \<^verbatim>\<open>Set\<close> of strings, in insertion order.\<close>

definition set_add :: \<open>string \<Rightarrow> string list \<Rightarrow> string list\<close> where
  \<open>set_add x xs = (if x \<in> set xs then xs else xs @ [x])\<close>

definition validationImports :: \<open>field_scripts list \<Rightarrow> string list\<close> where
  \<open>validationImports flds =
     foldl (\<lambda>imports f.
        if \<not> js_includes (name f) ''id'' \<and> \<not> isOptional f then
          (let i1 = set_add ''IsNotEmpty'' imports;
               i2 = (if type f = ''number'' then set_add ''IsNumber'' i1 else i1);
               i3 = (if type f = ''string'' then set_add ''IsString'' i2 else i2)
           in if type f = ''boolean'' then set_add ''IsBoolean'' i3 else i3)
        else imports) [] flds\<close>

definition createDtoField :: \<open>field_scripts \<Rightarrow> string\<close> where
  \<open>createDtoField f =
     (if \<not> js_includes (name f) ''id'' then
        (if isOptional f then
           ''  '' @ name f @ ''?: '' @ type f @ '';\<newline>''
         else
           ''  @IsNotEmpty()'' @
           (if type f = ''number'' then ''\<newline>'' @
                                        ''  @IsNumber()'' else []) @
           (if type f = ''string'' then ''\<newline>'' @
                                        ''  @IsString()'' else []) @
           (if type f = ''boolean'' then ''\<newline>'' @
                                         ''  @IsBoolean()'' else []) @
           ''\<newline>'' @
           ''  '' @ name f @ '': '' @ type f @ '';\<newline>'' @
           ''\<newline>'')
      else [])\<close>

definition generateCreateDto :: \<open>string \<Rightarrow> field_scripts list \<Rightarrow> string\<close> where
  \<open>generateCreateDto entityName flds =
     (let pascalCase = toPascalCase entityName in
      foldl (\<lambda>content f. content @ createDtoField f)
        ((if validationImports flds \<noteq> [] then
            ''import { '' @ js_join '', '' (validationImports flds) @ '' } from 'class-validator';\<newline>'' @
            ''\<newline>''
          else []) @
         ''export class Create'' @ pascalCase @ ''Dto {\<newline>'')
        flds @ ''}'')\<close>

definition generateUpdateDto :: \<open>string \<Rightarrow> string\<close> where
  \<open>generateUpdateDto entityName =
     (let pascalCase = toPascalCase entityName in
      ''import { PartialType } from '@nestjs/mapped-types';\<newline>'' @
      ''import { Create'' @ pascalCase @ ''Dto } from './create-'' @ entityName @ ''.dto';\<newline>'' @
      ''\<newline>'' @
      ''export class Update'' @ pascalCase @ ''Dto extends PartialType(Create'' @ pascalCase @ ''Dto) {}'')\<close>

definition generateAngularService :: \<open>string \<Rightarrow> string\<close> where
  \<open>generateAngularService entityName =
     (let pascalCase = toPascalCase entityName;
          camelCase = toCamelCase entityName
      in
      ''import { Injectable, inject } from '@angular/core';\<newline>'' @
      ''import { HttpClient } from '@angular/common/http';\<newline>'' @
      ''import { Observable } from 'rxjs';\<newline>'' @
      ''import { I'' @ pascalCase @ '' } from '../models/'' @ entityName @ sq @ '';\<newline>'' @
      ''\<newline>'' @
      ''@Injectable({\<newline>'' @
      ''  providedIn: 'root'\<newline>'' @
      ''})\<newline>'' @
      ''export class '' @ pascalCase @ ''Service {\<newline>'' @
      ''  private apiUrl = '/api/'' @ camelCase @ sq @ '';\<newline>'' @
      ''  private http = inject(HttpClient);\<newline>'' @
      ''\<newline>'' @
      ''  getAll(): Observable<I'' @ pascalCase @ ''[]> {\<newline>'' @
      ''    return this.http.get<I'' @ pascalCase @ ''[]>(this.apiUrl);\<newline>'' @
      ''  }\<newline>'' @
      ''\<newline>'' @
      ''  getById(id: number): Observable<I'' @ pascalCase @ ''> {\<newline>'' @
      ''    return this.http.get<I'' @ pascalCase @ ''>(`${this.apiUrl}/${id}`);\<newline>'' @
      ''  }\<newline>'' @
      ''\<newline>'' @
      ''  create('' @ camelCase @ '': Omit<I'' @ pascalCase @ '', 'id'>): Observable<I'' @ pascalCase @ ''> {\<newline>'' @
      ''    return this.http.post<I'' @ pascalCase @ ''>(this.apiUrl, '' @ camelCase @ '');\<newline>'' @
      ''  }\<newline>'' @
      ''\<newline>'' @
      ''  update(id: number, '' @ camelCase @ '': Partial<I'' @ pascalCase @ ''>): Observable<I'' @ pascalCase @ ''> {\<newline>'' @
      ''    return this.http.patch<I'' @ pascalCase @ ''>(`${this.apiUrl}/${id}`, '' @ camelCase @ '');\<newline>'' @
      ''  }\<newline>'' @
      ''\<newline>'' @
      ''  delete(id: number): Observable<void> {\<newline>'' @
      ''    return this.http.delete<void>(`${this.apiUrl}/${id}`);\<newline>'' @
      ''  }\<newline>'' @
      ''}'')\<close>

definition interfaceField_scripts :: \<open>field_scripts \<Rightarrow> string\<close> where
  \<open>interfaceField_scripts f =
     ''  '' @ name f @ '': '' @ type f @ (if isOptional f then '' | null'' else []) @ '';\<newline>''\<close>

definition generateInterface :: \<open>string \<Rightarrow> field_scripts list \<Rightarrow> string\<close> where
  \<open>generateInterface entityName flds =
     (let pascalCase = toPascalCase entityName in
      foldl (\<lambda>interfaceContent f. interfaceContent @ interfaceField_scripts f)
        (''export interface I'' @ pascalCase @ '' {\<newline>'' @
         ''  id: number;\<newline>'' @
         ''\<newline>'')
        flds @ ''}'')\<close>

definition columnType :: \<open>field_scripts \<Rightarrow> string\<close> where
  \<open>columnType f =
     (let c0 = sq @ ''varchar'' @ sq;
          c1 = (if type f = ''number'' then sq @ ''int'' @ sq else c0);
          c2 = (if type f = ''boolean'' then sq @ ''boolean'' @ sq else c1)
      in if type f = ''Date'' then sq @ ''timestamp'' @ sq else c2)\<close>

definition migrationColumn_scripts :: \<open>field_scripts \<Rightarrow> string\<close> where
  \<open>migrationColumn_scripts f =
     (if \<not> js_includes (name f) ''id'' then
        ''          {\<newline>'' @
        ''            name: '' @ sq @ name f @ sq @ '',\<newline>'' @
        ''            type: '' @ columnType f @ '',\<newline>'' @
        ''            isNullable: '' @ (if isOptional f then ''true'' else ''false'') @ '',\<newline>'' @
        ''          },\<newline>''
      else [])\<close>

text \<open>
  \<^verbatim>\<open>new Date().toISOString().replace(/[-:T]/g, '').split('.')[0]\<close>, from the ISO
  text of the clock reading.
\<close>

definition timestampOf :: \<open>string \<Rightarrow> string\<close> where
  \<open>timestampOf isoString =
     (case js_index (js_split (CHR ''.'') (filter (\<lambda>c. c \<notin> set ''-:T'') isoString)) 0 of
        None \<Rightarrow> ''undefined''
      | Some s \<Rightarrow> s)\<close>

text \<open>
  \<open>generateMigration\<close> returns the pair \<^verbatim>\<open>{ content, timestamp }\<close>; its third
  argument is the ISO text of the one \<^verbatim>\<open>new Date()\<close> it creates.
\<close>

definition generateMigration :: \<open>string \<Rightarrow> field_scripts list \<Rightarrow> string \<Rightarrow> string \<times> string\<close> where
  \<open>generateMigration entityName flds isoString =
     (let pascalCase = toPascalCase entityName;
          snakeCase = toSnakeCase pascalCase;
          timestamp = timestampOf isoString
      in (foldl (\<lambda>migrationContent f. migrationContent @ migrationColumn_scripts f)
            (''import { MigrationInterface, QueryRunner, Table } from 'typeorm';\<newline>'' @
             ''\<newline>'' @
             ''export class Create'' @ pascalCase @ ''Table'' @ timestamp @ '' implements MigrationInterface {\<newline>'' @
             ''  public async up(queryRunner: QueryRunner): Promise<void> {\<newline>'' @
             ''    await queryRunner.createTable(\<newline>'' @
             ''      new Table({\<newline>'' @
             ''        name: '' @ sq @ snakeCase @ sq @ '',\<newline>'' @
             ''        columns: [\<newline>'' @
             ''          {\<newline>'' @
             ''            name: 'id',\<newline>'' @
             ''            type: 'int',\<newline>'' @
             ''            isPrimary: true,\<newline>'' @
             ''            isGenerated: true,\<newline>'' @
             ''            generationStrategy: 'increment',\<newline>'' @
             ''          },\<newline>'')
            flds @
          ''        ],\<newline>'' @
          ''      }),\<newline>'' @
          ''      true,\<newline>'' @
          ''    );\<newline>'' @
          ''  }\<newline>'' @
          ''\<newline>'' @
          ''  public async down(queryRunner: QueryRunner): Promise<void> {\<newline>'' @
          ''    await queryRunner.dropTable('' @ sq @ snakeCase @ sq @ '');\<newline>'' @
          ''  }\<newline>'' @
          ''}'',
          timestamp))\<close>

section \<open>The file system, the clock and the two programs\<close>

text \<open>
  What a run does to the outside: \<open>disk\<close> maps a path to the text of the file
  there, \<open>written\<close> logs every \<^verbatim>\<open>writeFileSync\<close> in order, and the \<open>n\<close>-th reading of
  the clock is \<open>clock n\<close>, \<open>ticks\<close> counting the readings taken so far. The scripts
  create every directory before they write into it, so a write succeeds; the
  \<^verbatim>\<open>mkdirSync\<close> calls are not part of the model. \<^verbatim>\<open>path.join\<close> is modelled for path
  segments free of \<^verbatim>\<open>/\<close> and \<^verbatim>\<open>..\<close>, where it joins with \<^verbatim>\<open>/\<close>.
\<close>

record world =
  disk :: "string \<Rightarrow> string option"
  written :: "(string \<times> string) list"
  clock :: "nat \<Rightarrow> nat"
  ticks :: nat

definition existsSync :: "string \<Rightarrow> world \<Rightarrow> bool" where
  "existsSync path w = (disk w path \<noteq> None)"

definition readFileSync :: "string \<Rightarrow> world \<Rightarrow> string" where
  "readFileSync path w = (case disk w path of None \<Rightarrow> [] | Some content \<Rightarrow> content)"

definition writeFileSync :: "string \<Rightarrow> string \<Rightarrow> world \<Rightarrow> world" where
  "writeFileSync path content w =
     w\<lparr> disk := (disk w)(path \<mapsto> content), written := written w @ [(path, content)] \<rparr>"

definition Date_now :: "world \<Rightarrow> nat \<times> world" where
  "Date_now w = (clock w (ticks w), w\<lparr> ticks := Suc (ticks w) \<rparr>)"

definition path_join :: "string list \<Rightarrow> string" where
  "path_join segments = js_join ''/'' segments"

subsection \<open>\<^verbatim>\<open>unnamed/part_000\<close>\<close>

definition directory :: string where
  "directory = ''libs/olympus/core/src/lib''"

text \<open>\<^verbatim>\<open>path.join(directory, '../index.ts')\<close>, normalised.\<close>

definition indexPath :: string where
  "indexPath = ''libs/olympus/core/src/index.ts''"

definition exports_part000 :: \<open>string \<Rightarrow> string list\<close> where
  \<open>exports_part000 entityName =
     [''export * from './lib/'' @ entityName @ ''.interface';'',
      ''export * from './lib/'' @ entityName @ ''.service';'',
      ''export * from './lib/'' @ entityName @ ''.entity';'',
      ''export * from './lib/'' @ entityName @ ''.controller';'']\<close>

text \<open>The body of the \<^verbatim>\<open>forEach\<close> over the export lines.\<close>

definition mergeExport_part000 :: "string \<Rightarrow> string \<Rightarrow> string" where
  "mergeExport_part000 indexContent exportLine =
     (if \<not> js_includes indexContent exportLine
      then indexContent @ ''\<newline>'' @ exportLine
      else indexContent)"

definition mergeIndex_part000 :: "string \<Rightarrow> string list \<Rightarrow> string" where
  "mergeIndex_part000 indexContent exportLines = foldl mergeExport_part000 indexContent exportLines"

definition updateIndex_part000 :: "string \<Rightarrow> world \<Rightarrow> world" where
  "updateIndex_part000 entityName w =
     (let indexContent = (if existsSync indexPath w then readFileSync indexPath w else [])
      in writeFileSync indexPath (mergeIndex_part000 indexContent (exports_part000 entityName)) w)"

definition defaultFields :: string where
  "defaultFields = ''name:string,description:string''"

definition main_part000 :: "string list \<Rightarrow> world \<Rightarrow> error option \<times> world" where
  "main_part000 args w =
     (let fieldsString = (case js_index args 1 of
                            None \<Rightarrow> defaultFields
                          | Some s \<Rightarrow> if s = [] then defaultFields else s)
      in case js_index args 0 of
           None \<Rightarrow> (Some UsageError, w)
         | Some entityName \<Rightarrow>
             if entityName = [] then (Some UsageError, w)
             else
               (case parseFields_part000 fieldsString of
                  Inl e \<Rightarrow> (Some e, w)
                | Inr flds \<Rightarrow>
                    (let entityPascal = toPascalCase entityName;
                         entityCamel = toCamelCase entityName;
                         (timestamp, w0) = Date_now w;
                         w1 = writeFileSync (path_join [directory, entityName @ ''.interface.ts''])
                                (interfaceContent entityPascal flds) w0;
                         w2 = writeFileSync (path_join [directory, entityName @ ''.service.ts''])
                                (serviceContent entityName entityPascal entityCamel) w1;
                         w3 = writeFileSync (path_join [directory, entityName @ ''.entity.ts''])
                                (entityContent entityPascal entityCamel flds) w2;
                         w4 = writeFileSync (path_join [directory, entityName @ ''.controller.ts''])
                                (controllerContent entityName entityPascal entityCamel) w3;
                         w5 = writeFileSync
                                (path_join [directory, ''migrations'',
                                   ''Create'' @ entityPascal @ ''Table'' @ show_nat timestamp @ ''.ts''])
                                (migrationContent entityPascal entityCamel flds timestamp) w4
                     in (None, updateIndex_part000 entityName w5))))"

subsection \<open>\<^verbatim>\<open>scripts/generate-crud.js\<close>\<close>

definition modelsIndexPath :: string where
  "modelsIndexPath = path_join [''libs'', ''olympus'', ''core'', ''src'', ''lib'', ''models'', ''index.ts'']"

definition servicesIndexPath :: string where
  "servicesIndexPath = path_join [''libs'', ''olympus'', ''core'', ''src'', ''lib'', ''services'', ''index.ts'']"

text \<open>
  The index update, written twice in the script (models, services) with a different
  path, placeholder comment and export line: the text the block leaves in its
  variable, and the block with its conditional write.
\<close>

definition mergeExport_scripts :: "string \<Rightarrow> string \<Rightarrow> string \<Rightarrow> string" where
  "mergeExport_scripts placeholder indexContent exportLine =
     (if \<not> js_includes indexContent exportLine then
        (if js_trim indexContent = [] \<or> js_trim indexContent = placeholder
         then exportLine @ ''\<newline>''
         else indexContent @ exportLine @ ''\<newline>'')
      else indexContent)"

definition updateIndex_scripts :: "string \<Rightarrow> string \<Rightarrow> string \<Rightarrow> world \<Rightarrow> world" where
  "updateIndex_scripts path placeholder exportLine w =
     (let indexContent = (if existsSync path w then readFileSync path w else [])
      in if \<not> js_includes indexContent exportLine
         then writeFileSync path (mergeExport_scripts placeholder indexContent exportLine) w
         else w)"

text \<open>
  \<open>toISOString\<close> is the library's rendering of a clock reading as ISO 8601 text; the
  program is modelled for any such rendering.
\<close>

definition main_scripts :: \<open>(nat \<Rightarrow> string) \<Rightarrow> string list \<Rightarrow> world \<Rightarrow> error option \<times> world\<close> where
  \<open>main_scripts toISOString args w =
     (if length args < 2 then (Some UsageError, w)
      else
        (case (js_index args 0, js_index args 1) of
           (Some entityName, Some fieldsString) \<Rightarrow>
             (case parseFields_scripts fieldsString of
                Inl e \<Rightarrow> (Some e, w)
              | Inr flds \<Rightarrow>
                  (let targetPath = path_join [''apps'', ''zeus'', ''src'', ''app'', entityName];
                       migrationPath = path_join [''apps'', ''zeus'', ''src'', ''migrations''];
                       interfacePath = path_join [''libs'', ''olympus'', ''core'', ''src'', ''lib'', ''models''];
                       servicePath = path_join [''libs'', ''olympus'', ''core'', ''src'', ''lib'', ''services''];
                       w1 = writeFileSync (path_join [targetPath, entityName @ ''.entity.ts''])
                              (generateEntity entityName flds) w;
                       w2 = writeFileSync (path_join [targetPath, entityName @ ''.module.ts''])
                              (generateModule entityName) w1;
                       w3 = writeFileSync (path_join [targetPath, entityName @ ''.service.ts''])
                              (generateService entityName) w2;
                       w4 = writeFileSync (path_join [targetPath, entityName @ ''.controller.ts''])
                              (generateController entityName) w3;
                       w5 = writeFileSync (path_join [targetPath, ''dto'', ''create-'' @ entityName @ ''.dto.ts''])
                              (generateCreateDto entityName flds) w4;
                       w6 = writeFileSync (path_join [targetPath, ''dto'', ''update-'' @ entityName @ ''.dto.ts''])
                              (generateUpdateDto entityName) w5;
                       (now, w7) = Date_now w6;
                       (content, timestamp) = generateMigration entityName flds (toISOString now);
                       w8 = writeFileSync
                              (path_join [migrationPath,
                                 timestamp @ ''_create_'' @ toSnakeCase (toPascalCase entityName) @ ''_table.ts''])
                              content w7;
                       w9 = writeFileSync (path_join [interfacePath, entityName @ ''.ts''])
                              (generateInterface entityName flds) w8;
                       w10 = writeFileSync (path_join [servicePath, entityName @ ''.service.ts''])
                               (generateAngularService entityName) w9;
                       w11 = updateIndex_scripts modelsIndexPath ''// Export all model interfaces here''
                               (''export * from './'' @ entityName @ sq @ '';'') w10
                   in (None,
                       updateIndex_scripts servicesIndexPath ''// Export all services here''
                         (''export * from './'' @ entityName @ ''.service';'') w11)))
         | _ \<Rightarrow> (Some UsageError, w)))\<close>

section \<open>The type mapping of the specification\<close>

text \<open>
  Following the spec's words, to be compared with the tables of the code: each
  recognized lower-case type token with its value type and its column type, the token
  matched case-insensitively, and \<^verbatim>\<open>string\<close> with \<^verbatim>\<open>varchar\<close> for any other token.
\<close>

definition spec_typeMapping :: "string \<Rightarrow> string \<times> string" where
  "spec_typeMapping rawType =
     (let t = toLowerCase rawType in
      if t = ''string'' then (''string'', ''varchar'')
      else if t = ''number'' then (''number'', ''numeric'')
      else if t = ''boolean'' then (''boolean'', ''boolean'')
      else if t = ''date'' then (''Date'', ''timestamp'')
      else if t = ''uuid'' then (''string'', ''uuid'')
      else if t = ''text'' then (''string'', ''text'')
      else if t = ''int'' then (''number'', ''int'')
      else if t = ''float'' then (''number'', ''float'')
      else if t = ''decimal'' then (''number'', ''decimal'')
      else (''string'', ''varchar''))"

section \<open>Lemmas on the string operations\<close>

lemma js_split_nonempty: "js_split c s \<noteq> []"
  by (induction s) (auto split: list.splits)

lemma js_split_no_sep: "c \<notin> set s \<Longrightarrow> js_split c s = [s]"
  by (induction s) auto

lemma js_split_append: "js_split c (a @ c # b) = js_split c a @ js_split c b"
proof (induction a)
  case Nil
  show ?case by simp
next
  case (Cons x a)
  obtain seg segs where "js_split c a = seg # segs"
    using js_split_nonempty [of c a] by (cases "js_split c a") auto
  with Cons show ?case by simp
qed

lemma foldl_append_concat: "foldl (\<lambda>acc f. acc @ g f) h fs = h @ concat (map g fs)"
  by (induction fs arbitrary: h) auto

lemma js_includes_char: "js_includes s [c] \<longleftrightarrow> c \<in> set s"
  unfolding js_includes_def
  by (induction s) (auto simp: sublist_Cons_right)

lemma js_replace_char: "c \<notin> set a \<Longrightarrow> js_replace (a @ c # b) [c] r = a @ r @ b"
  by (induction a) auto

lemma js_replace_absent: "c \<notin> set a \<Longrightarrow> js_replace a [c] r = a"
  by (induction a) auto

lemma js_includes_Cons: "js_includes (c # s) p \<longleftrightarrow> prefix p (c # s) \<or> js_includes s p"
  by (simp add: js_includes_def sublist_Cons_right)

lemma js_includes_append: "js_includes s p \<Longrightarrow> js_includes (a @ s) p"
  unfolding js_includes_def by (metis sublist_append)

section \<open>Derived names\<close>

lemma entity_part000_collection:
  "js_includes (entityContent entityPascal entityCamel flds)
     (''@Entity('' @ sq @ entityCamel @ ''s'' @ sq @ '')'')"
  unfolding entityContent_def
  by (simp add: js_includes_Cons)

lemma controller_part000_collection:
  "js_includes (controllerContent entityName entityPascal entityCamel)
     (''@Controller('' @ sq @ entityCamel @ ''s'' @ sq @ '')'')"
  unfolding controllerContent_def
  by (simp add: js_includes_Cons, (rule js_includes_append, simp add: js_includes_Cons)+)

lemma migration_part000_collection:
  "js_includes (migrationContent entityPascal entityCamel flds timestamp)
     (''        name: '' @ sq @ entityCamel @ ''s'' @ sq @ '','')"
  unfolding migrationContent_def
  by (simp add: js_includes_Cons, (rule js_includes_append, simp add: js_includes_Cons)+)

lemma entity_scripts_table:
  "js_includes (generateEntity entityName sflds)
     (''@Entity('' @ sq @ toSnakeCase (toPascalCase entityName) @ sq @ '')'')"
  unfolding generateEntity_def Let_def foldl_append_concat
  by (simp add: js_includes_Cons)

lemma controller_scripts_route:
  "js_includes (generateController entityName)
     (''@Controller('' @ sq @ toSnakeCase (toPascalCase entityName) @ sq @ '')'')"
  unfolding generateController_def Let_def
  by (simp add: js_includes_Cons, (rule js_includes_append, simp add: js_includes_Cons)+)

lemma migration_scripts_table:
  "js_includes (fst (generateMigration entityName sflds isoString))
     (''        name: '' @ sq @ toSnakeCase (toPascalCase entityName) @ sq @ '','')"
  unfolding generateMigration_def Let_def foldl_append_concat
  by (simp add: js_includes_Cons, (rule js_includes_append, simp add: js_includes_Cons)+)

text \<open>
  Claim C4, as the spec states it, fails on \<^verbatim>\<open>scripts/generate-crud.js\<close>: for the entity
  name \<^verbatim>\<open>user\<close> the table of the data model (and the route and the migration's table)
  is \<^verbatim>\<open>user\<close>, the snake-case form of the type name, not the instance name followed
  by \<^verbatim>\<open>s\<close>.
\<close>

theorem collection_name_scripts_counterexample:
  \<open>generateEntity ''user'' [] =
     ''import { Entity, PrimaryGeneratedColumn, Column } from 'typeorm';\<newline>'' @
     ''\<newline>'' @
     ''@Entity('user')\<newline>'' @
     ''export class User {\<newline>'' @
     ''  @PrimaryGeneratedColumn()\<newline>'' @
     ''  id: number;\<newline>'' @
     ''\<newline>'' @
     ''}''
   \<and> toSnakeCase (toPascalCase ''user'') = ''user''
   \<and> toCamelCase ''user'' @ ''s'' = ''users''\<close>
  by (simp add: generateEntity_def toSnakeCase_def toPascalCase_def toCamelCase_def
        toUpperCase_def toLowerCase_def upperChar_def lowerChar_def upperLetters_def
        lowerLetters_def underscoreCapitals_def stripLeadingUnderscore_def)

text \<open>
  Claim C4, amended: for every non-empty entity name (first character \<open>c\<close>, rest
  \<open>cs\<close>) the type name is the name with its first character upper-cased and the
  instance name is the name with its first character lower-cased, the rest unchanged
  in both. In \<^verbatim>\<open>unnamed/part_000\<close> the table of the data model, the route of the
  controller and the table of the migration are the instance name followed by
  \<^verbatim>\<open>s\<close>, which has the same characters after the first. In
  \<^verbatim>\<open>scripts/generate-crud.js\<close> the three are the snake-case form of the type name, with
  no \<^verbatim>\<open>s\<close> appended.
\<close>

theorem derived_names:
  \<open>toPascalCase (c # cs) = upperChar c # cs
   \<and> toCamelCase (c # cs) = lowerChar c # cs
   \<and> toCamelCase (c # cs) @ ''s'' = lowerChar c # cs @ ''s''
   \<and> js_includes (entityContent (toPascalCase (c # cs)) (toCamelCase (c # cs)) flds)
         (''@Entity('' @ sq @ toCamelCase (c # cs) @ ''s'' @ sq @ '')'')
   \<and> js_includes (controllerContent (c # cs) (toPascalCase (c # cs)) (toCamelCase (c # cs)))
         (''@Controller('' @ sq @ toCamelCase (c # cs) @ ''s'' @ sq @ '')'')
   \<and> js_includes (migrationContent (toPascalCase (c # cs)) (toCamelCase (c # cs)) flds timestamp)
         (''        name: '' @ sq @ toCamelCase (c # cs) @ ''s'' @ sq @ '','')
   \<and> js_includes (generateEntity (c # cs) sflds)
         (''@Entity('' @ sq @ toSnakeCase (toPascalCase (c # cs)) @ sq @ '')'')
   \<and> js_includes (generateController (c # cs))
         (''@Controller('' @ sq @ toSnakeCase (toPascalCase (c # cs)) @ sq @ '')'')
   \<and> js_includes (fst (generateMigration (c # cs) sflds isoString))
         (''        name: '' @ sq @ toSnakeCase (toPascalCase (c # cs)) @ sq @ '','')\<close>
proof -
  have p: "toPascalCase (c # cs) = upperChar c # cs"
    by (simp add: toPascalCase_def toUpperCase_def)
  have l: "toCamelCase (c # cs) = lowerChar c # cs"
    by (simp add: toCamelCase_def toLowerCase_def)
  have s: "toCamelCase (c # cs) @ ''s'' = lowerChar c # cs @ ''s''"
    by (simp add: l)
  show ?thesis
    by (intro conjI p l s entity_part000_collection controller_part000_collection
          migration_part000_collection entity_scripts_table controller_scripts_route
          migration_scripts_table)
qed

theorem derived_names_witness:
  \<open>toPascalCase ''product'' = ''Product''
   \<and> toCamelCase ''Product'' = ''product''
   \<and> toCamelCase ''Product'' @ ''s'' = ''products''\<close>
  using derived_names [of "CHR ''p''" "''roduct''"] derived_names [of "CHR ''P''" "''roduct''"]
  by (simp add: upperChar_def lowerChar_def upperLetters_def lowerLetters_def)

section \<open>Optional fields\<close>

lemma js_includes_Nil: "js_includes [] p \<longleftrightarrow> p = []"
  by (simp add: js_includes_def)

lemma markNullable_values:
  \<open>markNullable [''@Column()''] = Inr [''@Column( { nullable: true })'']\<close>
  \<open>markNullable [''@Column({ type: "int" })''] = Inr [''@Column({ type: "int" }, { nullable: true })'']\<close>
  \<open>markNullable [''@Column({ type: "boolean" })''] = Inr [''@Column({ type: "boolean" }, { nullable: true })'']\<close>
  \<open>markNullable [''@Column({ type: "timestamp" })''] = Inr [''@Column({ type: "timestamp" }, { nullable: true })'']\<close>
  by (simp_all add: markNullable_def)

lemma resolveType_cases:
  \<open>snd (resolveType_scripts t) = [''@Column()''] \<or>
   snd (resolveType_scripts t) = [''@Column({ type: "int" })''] \<or>
   snd (resolveType_scripts t) = [''@Column({ type: "boolean" })''] \<or>
   snd (resolveType_scripts t) = [''@Column({ type: "timestamp" })'']\<close>
  by (simp add: resolveType_scripts_def Let_def)

lemma markNullable_resolve:
  \<open>\<exists>d. markNullable (snd (resolveType_scripts t)) = Inr [d] \<and> js_includes d ''nullable: true''\<close>
  using resolveType_cases [of t]
  by (elim disjE) (simp_all add: markNullable_values js_includes_Cons js_includes_Nil)

lemma plain_resolve:
  \<open>\<exists>d. snd (resolveType_scripts t) = [d] \<and> \<not> js_includes d ''nullable: true''\<close>
  using resolveType_cases [of t]
  by (elim disjE) (simp_all add: js_includes_Cons js_includes_Nil)

lemma parseField_scripts_shape:
  assumes \<open>parseField_scripts tok = Inr g\<close>
  shows \<open>\<exists>nm ty. js_index (js_split (CHR '':'') (js_trim tok)) 0 = Some nm
           \<and> js_index (js_split (CHR '':'') (js_trim tok)) 1 = Some ty
           \<and> name g = js_trim nm
           \<and> type g = fst (resolveType_scripts (js_replace ty ''?'' []))
           \<and> isOptional g = js_includes ty ''?''
           \<and> (if js_includes ty ''?''
               then markNullable (snd (resolveType_scripts (js_replace ty ''?'' []))) = Inr (decorators g)
               else decorators g = snd (resolveType_scripts (js_replace ty ''?'' [])))\<close>
proof -
  let ?parts = "js_split (CHR '':'') (js_trim tok)"
  show ?thesis
  proof (cases "js_index ?parts 1")
    case None
    with assms show ?thesis by (simp add: parseField_scripts_def)
  next
    case (Some ty)
    obtain ft decs where r: "resolveType_scripts (js_replace ty ''?'' []) = (ft, decs)"
      by (cases "resolveType_scripts (js_replace ty ''?'' [])") simp
    let ?m = "if js_includes ty ''?'' then markNullable decs else Inr decs"
    show ?thesis
    proof (cases ?m)
      case (Inl e)
      with assms Some r show ?thesis by (simp add: parseField_scripts_def)
    next
      case (Inr decs')
      show ?thesis
      proof (cases "js_index ?parts 0")
        case None
        with assms Some r Inr show ?thesis by (simp add: parseField_scripts_def)
      next
        case nm: (Some nm)
        with assms Some r Inr
        have g: "g = \<lparr> name = js_trim nm, type = ft, isOptional = js_includes ty ''?'',
                       decorators = decs' \<rparr>"
          by (simp add: parseField_scripts_def)
        from Inr have "if js_includes ty ''?'' then markNullable decs = Inr decs' else decs' = decs"
          by (simp split: if_splits)
        with g r Some nm show ?thesis by simp
      qed
    qed
  qed
qed

lemma parseField_scripts_decorators:
  assumes \<open>parseField_scripts tok = Inr g\<close>
  shows \<open>\<exists>d. decorators g = [d] \<and> js_includes d ''nullable: true'' = isOptional g\<close>
proof -
  from parseField_scripts_shape [OF assms] obtain ty where
    o: "isOptional g = js_includes ty ''?''" and
    d: "if js_includes ty ''?''
        then markNullable (snd (resolveType_scripts (js_replace ty ''?'' []))) = Inr (decorators g)
        else decorators g = snd (resolveType_scripts (js_replace ty ''?'' []))"
    by blast
  show ?thesis
  proof (cases "js_includes ty ''?''")
    case True
    with d markNullable_resolve [of "js_replace ty ''?'' []"] o show ?thesis by auto
  next
    case False
    with d plain_resolve [of "js_replace ty ''?'' []"] o show ?thesis by auto
  qed
qed

lemma parseField_part000_plain_name:
  assumes "parseField_part000 tok = Inr f" "\<not> isOptional f"
  shows "CHR ''?'' \<notin> set (name f)"
proof -
  obtain nm segs where s: "js_split (CHR '':'') (js_trim tok) = nm # segs"
    using js_split_nonempty [of "CHR '':''" "js_trim tok"]
    by (cases "js_split (CHR '':'') (js_trim tok)") auto
  with assms(1) have f: "name f = js_replace nm ''?'' []" "isOptional f = js_includes nm ''?''"
    by (auto simp: parseField_part000_def js_index_def)
  with assms(2) have "CHR ''?'' \<notin> set nm" by (simp add: js_includes_char)
  with f(1) show ?thesis by (simp add: js_replace_absent)
qed

text \<open>
  Claim C3, as the spec states it, fails on \<^verbatim>\<open>scripts/generate-crud.js\<close>. That parser
  takes the optional marker from the type only, so the token
  \<^verbatim>\<open>description?:string\<close> gives a field that is not optional and whose name ends
  with the marker. The class and the create DTO then declare the member
  \<^verbatim>\<open>description?: string\<close>, the very text the create DTO writes for an optional
  field \<^verbatim>\<open>description\<close>, while the column decorator and the migration column are
  not nullable.
\<close>

theorem optional_flag_counterexample:
  \<open>parseField_scripts ''description?:string'' =
     Inr \<lparr> name = ''description?'', type = ''string'', isOptional = False,
           decorators = [''@Column()''] \<rparr>
   \<and> entityField_scripts \<lparr> name = ''description?'', type = ''string'', isOptional = False,
           decorators = [''@Column()''] \<rparr> =
       ''  @Column()\<newline>  description?: string;\<newline>\<newline>''
   \<and> createDtoField \<lparr> name = ''description?'', type = ''string'', isOptional = False,
           decorators = [''@Column()''] \<rparr> =
       ''  @IsNotEmpty()\<newline>  @IsString()\<newline>  description?: string;\<newline>\<newline>''
   \<and> createDtoField \<lparr> name = ''description'', type = ''string'', isOptional = True,
           decorators = [''@Column( { nullable: true })''] \<rparr> =
       ''  description?: string;\<newline>''
   \<and> migrationColumn_scripts \<lparr> name = ''description?'', type = ''string'', isOptional = False,
           decorators = [''@Column()''] \<rparr> =
       ''          {\<newline>'' @
       ''            name: 'description?',\<newline>'' @
       ''            type: 'varchar',\<newline>'' @
       ''            isNullable: false,\<newline>'' @
       ''          },\<newline>''\<close>
  by (simp add: parseField_scripts_def js_trim_def isSpace_def js_index_def js_includes_Cons
        js_includes_Nil resolveType_scripts_def toLowerCase_def lowerChar_def upperLetters_def
        lowerLetters_def entityField_scripts_def createDtoField_def migrationColumn_scripts_def
        columnType_def)

text \<open>
  Claim C3, amended: every emitter adds its mark of nullability exactly when the
  optional flag of the field is set. In \<^verbatim>\<open>unnamed/part_000\<close> an optional field is a
  \<^verbatim>\<open>?\<close> member of the interfaces and of the class, a \<^verbatim>\<open>nullable: true\<close> column of the
  data model and an \<^verbatim>\<open>isNullable: true\<close> column of the migration; a field that is not
  optional is a plain member, \<^verbatim>\<open>nullable: false\<close> and \<^verbatim>\<open>isNullable: false\<close>, and
  when it comes from the parser its name has no \<^verbatim>\<open>?\<close>. In
  \<^verbatim>\<open>scripts/generate-crud.js\<close> the one column decorator of a parsed field contains
  \<^verbatim>\<open>nullable: true\<close> exactly when the field is optional; an optional field is a
  \<^verbatim>\<open>| null\<close> member of the class and of the interface, a \<^verbatim>\<open>?\<close> member of the create
  DTO and an \<^verbatim>\<open>isNullable: true\<close> column of the migration; for a field that is not
  optional the emitters add none of these marks and write the name as it was parsed.
  For the create DTO and the migration of that script this is stated for the fields
  whose name does not contain \<^verbatim>\<open>id\<close>.
\<close>

theorem optional_renders_nullable:
  fixes f :: field and g :: field_scripts
  shows
  \<open>(isOptional f \<longrightarrow>
        interfaceField f =
            ''  '' @ name f @ ''?: '' @ js_toString (getTypeScriptType (type f)) @ '';''
      \<and> entityField f =
            ''  @Column({ type: '' @ sq @ js_toString (getTypeORMType (type f)) @ sq @ '', nullable: true })\<newline>'' @
            ''  '' @ name f @ ''?: '' @ js_toString (getTypeScriptType (type f)) @ '';''
      \<and> migrationField f =
            ''          {\<newline>'' @
            ''            name: '' @ sq @ name f @ sq @ '',\<newline>'' @
            ''            type: '' @ sq @ js_toString (getTypeORMType (type f)) @ sq @ '',\<newline>'' @
            ''            isNullable: true,\<newline>'' @
            ''          },'')
   \<and> (\<not> isOptional f \<longrightarrow>
        interfaceField f =
            ''  '' @ name f @ '': '' @ js_toString (getTypeScriptType (type f)) @ '';''
      \<and> entityField f =
            ''  @Column({ type: '' @ sq @ js_toString (getTypeORMType (type f)) @ sq @ '', nullable: false })\<newline>'' @
            ''  '' @ name f @ '': '' @ js_toString (getTypeScriptType (type f)) @ '';''
      \<and> migrationField f =
            ''          {\<newline>'' @
            ''            name: '' @ sq @ name f @ sq @ '',\<newline>'' @
            ''            type: '' @ sq @ js_toString (getTypeORMType (type f)) @ sq @ '',\<newline>'' @
            ''            isNullable: false,\<newline>'' @
            ''          },'')
   \<and> (parseField_scripts tok = Inr g \<longrightarrow>
        (\<exists>d. decorators g = [d] \<and> js_includes d ''nullable: true'' = isOptional g))
   \<and> (isOptional g \<longrightarrow>
        entityField_scripts g =
            ''  '' @ js_join ''\<newline>  '' (decorators g) @ ''\<newline>'' @
            ''  '' @ name g @ '': '' @ type g @ '' | null;\<newline>'' @
            ''\<newline>''
      \<and> interfaceField_scripts g =
            ''  '' @ name g @ '': '' @ type g @ '' | null;\<newline>''
      \<and> (\<not> js_includes (name g) ''id'' \<longrightarrow>
            createDtoField g =
            ''  '' @ name g @ ''?: '' @ type g @ '';\<newline>''
          \<and> migrationColumn_scripts g =
            ''          {\<newline>'' @
            ''            name: '' @ sq @ name g @ sq @ '',\<newline>'' @
            ''            type: '' @ columnType g @ '',\<newline>'' @
            ''            isNullable: true,\<newline>'' @
            ''          },\<newline>''))
   \<and> (\<not> isOptional g \<longrightarrow>
        entityField_scripts g =
            ''  '' @ js_join ''\<newline>  '' (decorators g) @ ''\<newline>'' @
            ''  '' @ name g @ '': '' @ type g @ '';\<newline>'' @
            ''\<newline>''
      \<and> interfaceField_scripts g =
            ''  '' @ name g @ '': '' @ type g @ '';\<newline>''
      \<and> (\<not> js_includes (name g) ''id'' \<longrightarrow>
            createDtoField g =
            ''  @IsNotEmpty()'' @
            (if type g = ''number'' then ''\<newline>  @IsNumber()'' else []) @
            (if type g = ''string'' then ''\<newline>  @IsString()'' else []) @
            (if type g = ''boolean'' then ''\<newline>  @IsBoolean()'' else []) @
            ''\<newline>'' @
            ''  '' @ name g @ '': '' @ type g @ '';\<newline>'' @
            ''\<newline>''
          \<and> migrationColumn_scripts g =
            ''          {\<newline>'' @
            ''            name: '' @ sq @ name g @ sq @ '',\<newline>'' @
            ''            type: '' @ columnType g @ '',\<newline>'' @
            ''            isNullable: false,\<newline>'' @
            ''          },\<newline>''))
   \<and> (parseField_part000 tok = Inr f \<and> \<not> isOptional f \<longrightarrow> CHR ''?'' \<notin> set (name f))\<close>
proof -
  have a: \<open>(isOptional f \<longrightarrow>
          interfaceField f =
              ''  '' @ name f @ ''?: '' @ js_toString (getTypeScriptType (type f)) @ '';''
        \<and> entityField f =
              ''  @Column({ type: '' @ sq @ js_toString (getTypeORMType (type f)) @ sq @ '', nullable: true })\<newline>'' @
              ''  '' @ name f @ ''?: '' @ js_toString (getTypeScriptType (type f)) @ '';''
        \<and> migrationField f =
              ''          {\<newline>'' @
              ''            name: '' @ sq @ name f @ sq @ '',\<newline>'' @
              ''            type: '' @ sq @ js_toString (getTypeORMType (type f)) @ sq @ '',\<newline>'' @
              ''            isNullable: true,\<newline>'' @
              ''          },'')\<close>
    by (simp add: interfaceField_def entityField_def migrationField_def show_bool_def)
  have b: \<open>(\<not> isOptional f \<longrightarrow>
          interfaceField f =
              ''  '' @ name f @ '': '' @ js_toString (getTypeScriptType (type f)) @ '';''
        \<and> entityField f =
              ''  @Column({ type: '' @ sq @ js_toString (getTypeORMType (type f)) @ sq @ '', nullable: false })\<newline>'' @
              ''  '' @ name f @ '': '' @ js_toString (getTypeScriptType (type f)) @ '';''
        \<and> migrationField f =
              ''          {\<newline>'' @
              ''            name: '' @ sq @ name f @ sq @ '',\<newline>'' @
              ''            type: '' @ sq @ js_toString (getTypeORMType (type f)) @ sq @ '',\<newline>'' @
              ''            isNullable: false,\<newline>'' @
              ''          },'')\<close>
    by (simp add: interfaceField_def entityField_def migrationField_def show_bool_def)
  have c: \<open>(parseField_scripts tok = Inr g \<longrightarrow>
          (\<exists>d. decorators g = [d] \<and> js_includes d ''nullable: true'' = isOptional g))\<close>
    using parseField_scripts_decorators by blast
  have d: \<open>(isOptional g \<longrightarrow>
          entityField_scripts g =
              ''  '' @ js_join ''\<newline>  '' (decorators g) @ ''\<newline>'' @
              ''  '' @ name g @ '': '' @ type g @ '' | null;\<newline>'' @
              ''\<newline>''
        \<and> interfaceField_scripts g =
              ''  '' @ name g @ '': '' @ type g @ '' | null;\<newline>''
        \<and> (\<not> js_includes (name g) ''id'' \<longrightarrow>
              createDtoField g =
              ''  '' @ name g @ ''?: '' @ type g @ '';\<newline>''
            \<and> migrationColumn_scripts g =
              ''          {\<newline>'' @
              ''            name: '' @ sq @ name g @ sq @ '',\<newline>'' @
              ''            type: '' @ columnType g @ '',\<newline>'' @
              ''            isNullable: true,\<newline>'' @
              ''          },\<newline>''))\<close>
    by (simp add: entityField_scripts_def interfaceField_scripts_def createDtoField_def
        migrationColumn_scripts_def)
  have e: \<open>(\<not> isOptional g \<longrightarrow>
          entityField_scripts g =
              ''  '' @ js_join ''\<newline>  '' (decorators g) @ ''\<newline>'' @
              ''  '' @ name g @ '': '' @ type g @ '';\<newline>'' @
              ''\<newline>''
        \<and> interfaceField_scripts g =
              ''  '' @ name g @ '': '' @ type g @ '';\<newline>''
        \<and> (\<not> js_includes (name g) ''id'' \<longrightarrow>
              createDtoField g =
              ''  @IsNotEmpty()'' @
              (if type g = ''number'' then ''\<newline>  @IsNumber()'' else []) @
              (if type g = ''string'' then ''\<newline>  @IsString()'' else []) @
              (if type g = ''boolean'' then ''\<newline>  @IsBoolean()'' else []) @
              ''\<newline>'' @
              ''  '' @ name g @ '': '' @ type g @ '';\<newline>'' @
              ''\<newline>''
            \<and> migrationColumn_scripts g =
              ''          {\<newline>'' @
              ''            name: '' @ sq @ name g @ sq @ '',\<newline>'' @
              ''            type: '' @ columnType g @ '',\<newline>'' @
              ''            isNullable: false,\<newline>'' @
              ''          },\<newline>''))\<close>
    by (simp add: entityField_scripts_def interfaceField_scripts_def createDtoField_def
        migrationColumn_scripts_def)
  have p: \<open>(parseField_part000 tok = Inr f \<and> \<not> isOptional f \<longrightarrow> CHR ''?'' \<notin> set (name f))\<close>
    using parseField_part000_plain_name by blast
  show ?thesis
    by (intro conjI a b c d e p)
qed

theorem optional_renders_nullable_witness:
  \<open>interfaceField \<lparr> name = ''isActive'', type = ''boolean'', isOptional = True \<rparr> = ''  isActive?: boolean;''
   \<and> interfaceField \<lparr> name = ''price'', type = ''number'', isOptional = False \<rparr> = ''  price: number;''
   \<and> migrationField \<lparr> name = ''isActive'', type = ''boolean'', isOptional = True \<rparr> =
        ''          {\<newline>'' @
        ''            name: 'isActive',\<newline>'' @
        ''            type: 'boolean',\<newline>'' @
        ''            isNullable: true,\<newline>'' @
        ''          },''
   \<and> parseField_scripts ''price:number?'' =
        Inr \<lparr> name = ''price'', type = ''number'', isOptional = True,
              decorators = [''@Column({ type: "int" }, { nullable: true })''] \<rparr>
   \<and> interfaceField_scripts \<lparr> name = ''price'', type = ''number'', isOptional = True,
              decorators = [''@Column({ type: "int" }, { nullable: true })''] \<rparr> = ''  price: number | null;\<newline>''\<close>
  using optional_renders_nullable [of "\<lparr> name = ''isActive'', type = ''boolean'', isOptional = True \<rparr>"
          "''price:number?''"
          "\<lparr> name = ''price'', type = ''number'', isOptional = True,
              decorators = [''@Column({ type: \"int\" }, { nullable: true })''] \<rparr>"]
        optional_renders_nullable [of "\<lparr> name = ''price'', type = ''number'', isOptional = False \<rparr>"]
  by (simp add: getTypeScriptType_def getTypeORMType_def js_or_def js_get_def typeMap_ts_def
        typeMap_orm_def truthy_def js_toString_def toLowerCase_def lowerChar_def upperLetters_def
        lowerLetters_def parseField_scripts_def js_trim_def isSpace_def js_index_def
        js_includes_Cons js_includes_Nil resolveType_scripts_def markNullable_def)


section \<open>Runs of the two programs\<close>

lemma parseField_part000_total:
  "\<exists>f. parseField_part000 tok = Inr f"
proof -
  obtain seg segs where "js_split (CHR '':'') (js_trim tok) = seg # segs"
    using js_split_nonempty [of "CHR '':''" "js_trim tok"]
    by (cases "js_split (CHR '':'') (js_trim tok)") auto
  then show ?thesis
    by (simp add: parseField_part000_def js_index_def)
qed

lemma collect_all_Inr:
  "(\<And>x. x \<in> set xs \<Longrightarrow> \<exists>v. f x = Inr v) \<Longrightarrow> \<exists>vs. collect (map f xs) = Inr vs \<and> length vs = length xs"
proof (induction xs)
  case Nil
  show ?case by simp
next
  case (Cons x xs)
  then obtain v where v: "f x = Inr v" by auto
  from Cons obtain vs where "collect (map f xs) = Inr vs" "length vs = length xs" by auto
  with v show ?case by simp
qed

lemma parseFields_part000_total:
  "\<exists>flds. parseFields_part000 s = Inr flds \<and> length flds = length (js_split (CHR '','') s)"
  unfolding parseFields_part000_def
  using collect_all_Inr [of "js_split (CHR '','') s" parseField_part000] parseField_part000_total
  by blast

lemma written_writeFileSync [simp]:
  "written (writeFileSync path content w) = written w @ [(path, content)]"
  by (simp add: writeFileSync_def)

lemma ticks_writeFileSync [simp]: "ticks (writeFileSync path content w) = ticks w"
  by (simp add: writeFileSync_def)

lemma clock_writeFileSync [simp]: "clock (writeFileSync path content w) = clock w"
  by (simp add: writeFileSync_def)

lemma ticks_updateIndex_part000 [simp]: "ticks (updateIndex_part000 e w) = ticks w"
  by (simp add: updateIndex_part000_def Let_def)

lemma written_updateIndex_part000:
  "\<exists>c. written (updateIndex_part000 e w) = written w @ [(indexPath, c)]"
  by (simp add: updateIndex_part000_def Let_def)

lemma ticks_updateIndex_scripts [simp]: "ticks (updateIndex_scripts p ph l w) = ticks w"
  by (simp add: updateIndex_scripts_def Let_def)

lemma written_updateIndex_scripts:
  "\<exists>ws. written (updateIndex_scripts p ph l w) = written w @ ws"
  by (simp add: updateIndex_scripts_def Let_def)

lemma migration_part000_class:
  "js_includes (migrationContent entityPascal entityCamel flds timestamp)
     (''export class Create'' @ entityPascal @ ''Table'' @ show_nat timestamp @ '' implements MigrationInterface'')"
  unfolding migrationContent_def
  by (simp add: js_includes_Cons)

lemma migration_scripts_class:
  "js_includes (fst (generateMigration entityName sflds isoString))
     (''export class Create'' @ toPascalCase entityName @ ''Table'' @ timestampOf isoString @ '' implements MigrationInterface'')"
  unfolding generateMigration_def Let_def foldl_append_concat
  by (simp add: js_includes_Cons)

lemma migration_scripts_timestamp:
  "snd (generateMigration entityName sflds isoString) = timestampOf isoString"
  by (simp add: generateMigration_def Let_def)

lemma main_part000_run:
  assumes "fst (main_part000 args w) = None"
  shows "\<exists>entityName flds idx.
           js_index args 0 = Some entityName \<and>
           ticks (snd (main_part000 args w)) = Suc (ticks w) \<and>
           written (snd (main_part000 args w)) = written w @
             [(path_join [directory, entityName @ ''.interface.ts''],
                 interfaceContent (toPascalCase entityName) flds),
              (path_join [directory, entityName @ ''.service.ts''],
                 serviceContent entityName (toPascalCase entityName) (toCamelCase entityName)),
              (path_join [directory, entityName @ ''.entity.ts''],
                 entityContent (toPascalCase entityName) (toCamelCase entityName) flds),
              (path_join [directory, entityName @ ''.controller.ts''],
                 controllerContent entityName (toPascalCase entityName) (toCamelCase entityName)),
              (path_join [directory, ''migrations'',
                 ''Create'' @ toPascalCase entityName @ ''Table'' @ show_nat (clock w (ticks w)) @ ''.ts''],
                 migrationContent (toPascalCase entityName) (toCamelCase entityName) flds
                   (clock w (ticks w))),
              (indexPath, idx)]"
proof (cases "js_index args 0")
  case None
  with assms show ?thesis by (simp add: main_part000_def Let_def)
next
  case (Some entityName)
  show ?thesis
  proof (cases "entityName = []")
    case True
    with assms Some show ?thesis by (simp add: main_part000_def Let_def)
  next
    case False
    let ?fs = "case js_index args 1 of None \<Rightarrow> defaultFields
               | Some s \<Rightarrow> if s = [] then defaultFields else s"
    obtain flds where p: "parseFields_part000 ?fs = Inr flds"
      using parseFields_part000_total by blast
    let ?w5 = "writeFileSync
                 (path_join [directory, ''migrations'',
                    ''Create'' @ toPascalCase entityName @ ''Table'' @ show_nat (clock w (ticks w)) @ ''.ts''])
                 (migrationContent (toPascalCase entityName) (toCamelCase entityName) flds (clock w (ticks w)))
              (writeFileSync (path_join [directory, entityName @ ''.controller.ts''])
                 (controllerContent entityName (toPascalCase entityName) (toCamelCase entityName))
              (writeFileSync (path_join [directory, entityName @ ''.entity.ts''])
                 (entityContent (toPascalCase entityName) (toCamelCase entityName) flds)
              (writeFileSync (path_join [directory, entityName @ ''.service.ts''])
                 (serviceContent entityName (toPascalCase entityName) (toCamelCase entityName))
              (writeFileSync (path_join [directory, entityName @ ''.interface.ts''])
                 (interfaceContent (toPascalCase entityName) flds)
                 (w\<lparr> ticks := Suc (ticks w) \<rparr>)))))"
    have m: "main_part000 args w = (None, updateIndex_part000 entityName ?w5)"
      using Some False p by (simp add: main_part000_def Let_def Date_now_def)
    obtain idx where "written (updateIndex_part000 entityName ?w5) = written ?w5 @ [(indexPath, idx)]"
      using written_updateIndex_part000 by blast
    with m Some show ?thesis
      by (intro exI [of _ entityName] exI [of _ flds] exI [of _ idx]) simp
  qed
qed

lemma main_scripts_run:
  assumes "fst (main_scripts toISOString args w) = None"
  shows "\<exists>entityName flds ws.
           js_index args 0 = Some entityName \<and>
           ticks (snd (main_scripts toISOString args w)) = Suc (ticks w) \<and>
           written (snd (main_scripts toISOString args w)) = written w @
             [(path_join [path_join [''apps'', ''zeus'', ''src'', ''app'', entityName],
                          entityName @ ''.entity.ts''],
                 generateEntity entityName flds),
              (path_join [path_join [''apps'', ''zeus'', ''src'', ''app'', entityName],
                          entityName @ ''.module.ts''],
                 generateModule entityName),
              (path_join [path_join [''apps'', ''zeus'', ''src'', ''app'', entityName],
                          entityName @ ''.service.ts''],
                 generateService entityName),
              (path_join [path_join [''apps'', ''zeus'', ''src'', ''app'', entityName],
                          entityName @ ''.controller.ts''],
                 generateController entityName),
              (path_join [path_join [''apps'', ''zeus'', ''src'', ''app'', entityName],
                          ''dto'', ''create-'' @ entityName @ ''.dto.ts''],
                 generateCreateDto entityName flds),
              (path_join [path_join [''apps'', ''zeus'', ''src'', ''app'', entityName],
                          ''dto'', ''update-'' @ entityName @ ''.dto.ts''],
                 generateUpdateDto entityName),
              (path_join [path_join [''apps'', ''zeus'', ''src'', ''migrations''],
                          timestampOf (toISOString (clock w (ticks w))) @ ''_create_'' @
                          toSnakeCase (toPascalCase entityName) @ ''_table.ts''],
                 fst (generateMigration entityName flds (toISOString (clock w (ticks w))))),
              (path_join [path_join [''libs'', ''olympus'', ''core'', ''src'', ''lib'', ''models''],
                          entityName @ ''.ts''],
                 generateInterface entityName flds),
              (path_join [path_join [''libs'', ''olympus'', ''core'', ''src'', ''lib'', ''services''],
                          entityName @ ''.service.ts''],
                 generateAngularService entityName)] @ ws"
proof (cases "length args < 2")
  case True
  with assms show ?thesis by (simp add: main_scripts_def)
next
  case False
  then have "js_index args 0 = Some (args ! 0)" "js_index args 1 = Some (args ! 1)"
    by (auto simp: js_index_def)
  then obtain entityName fieldsString where
    a: "js_index args 0 = Some entityName" "js_index args 1 = Some fieldsString"
    by blast
  show ?thesis
  proof (cases "parseFields_scripts fieldsString")
    case (Inl e)
    with assms False a show ?thesis by (simp add: main_scripts_def)
  next
    case (Inr flds)
    let ?iso = "toISOString (clock w (ticks w))"
    let ?t = "path_join [''apps'', ''zeus'', ''src'', ''app'', entityName]"
    let ?w10 =
      "writeFileSync (path_join [path_join [''libs'', ''olympus'', ''core'', ''src'', ''lib'', ''services''],
                          entityName @ ''.service.ts''])
         (generateAngularService entityName)
      (writeFileSync (path_join [path_join [''libs'', ''olympus'', ''core'', ''src'', ''lib'', ''models''],
                          entityName @ ''.ts''])
         (generateInterface entityName flds)
      (writeFileSync (path_join [path_join [''apps'', ''zeus'', ''src'', ''migrations''],
                          timestampOf ?iso @ ''_create_'' @
                          toSnakeCase (toPascalCase entityName) @ ''_table.ts''])
         (fst (generateMigration entityName flds ?iso))
      ((writeFileSync (path_join [?t, ''dto'', ''update-'' @ entityName @ ''.dto.ts''])
         (generateUpdateDto entityName)
      (writeFileSync (path_join [?t, ''dto'', ''create-'' @ entityName @ ''.dto.ts''])
         (generateCreateDto entityName flds)
      (writeFileSync (path_join [?t, entityName @ ''.controller.ts'']) (generateController entityName)
      (writeFileSync (path_join [?t, entityName @ ''.service.ts'']) (generateService entityName)
      (writeFileSync (path_join [?t, entityName @ ''.module.ts'']) (generateModule entityName)
      (writeFileSync (path_join [?t, entityName @ ''.entity.ts'']) (generateEntity entityName flds)
         w))))))\<lparr> ticks := Suc (ticks w) \<rparr>)))"
    let ?w11 = "updateIndex_scripts modelsIndexPath ''// Export all model interfaces here''
                  (''export * from './'' @ entityName @ sq @ '';'') ?w10"
    let ?w12 = "updateIndex_scripts servicesIndexPath ''// Export all services here''
                  (''export * from './'' @ entityName @ ''.service';'') ?w11"
    have m: "main_scripts toISOString args w = (None, ?w12)"
      using False a Inr
      by (simp add: main_scripts_def Let_def Date_now_def migration_scripts_timestamp
            split_beta)
    obtain ws1 where w1: "written ?w11 = written ?w10 @ ws1"
      using written_updateIndex_scripts by blast
    obtain ws2 where w2: "written ?w12 = written ?w11 @ ws2"
      using written_updateIndex_scripts by blast
    from m a w1 w2 show ?thesis
      by (intro exI [of _ entityName] exI [of _ flds] exI [of _ "ws1 @ ws2"]) simp
  qed
qed

section \<open>The migration timestamp\<close>

text \<open>
  Claim C7: a run that succeeds reads the clock exactly once, and that one reading is
  in both names of the migration. In \<^verbatim>\<open>unnamed/part_000\<close> the migration file is
  \<^verbatim>\<open>Create<Type>Table<timestamp>.ts\<close> and its text declares the class
  \<^verbatim>\<open>Create<Type>Table<timestamp>\<close>; in \<^verbatim>\<open>scripts/generate-crud.js\<close> the file is
  \<^verbatim>\<open><timestamp>_create_<table>_table.ts\<close> and the class is again
  \<^verbatim>\<open>Create<Type>Table<timestamp>\<close>, the timestamp being the digits of the date and time
  of the reading.
\<close>

theorem migration_timestamp_shared:
  \<open>(fst (main_part000 args w) = None \<longrightarrow>
       ticks (snd (main_part000 args w)) = Suc (ticks w)
     \<and> (\<exists>entityName content.
           js_index args 0 = Some entityName
         \<and> (path_join [directory, ''migrations'',
               ''Create'' @ toPascalCase entityName @ ''Table'' @ show_nat (clock w (ticks w)) @ ''.ts''],
              content) \<in> set (written (snd (main_part000 args w)))
         \<and> js_includes content
               (''export class Create'' @ toPascalCase entityName @ ''Table'' @
                show_nat (clock w (ticks w)) @ '' implements MigrationInterface'')))
   \<and> (fst (main_scripts toISOString args w) = None \<longrightarrow>
       ticks (snd (main_scripts toISOString args w)) = Suc (ticks w)
     \<and> (\<exists>entityName content.
           js_index args 0 = Some entityName
         \<and> (path_join [path_join [''apps'', ''zeus'', ''src'', ''migrations''],
               timestampOf (toISOString (clock w (ticks w))) @ ''_create_'' @
               toSnakeCase (toPascalCase entityName) @ ''_table.ts''],
              content) \<in> set (written (snd (main_scripts toISOString args w)))
         \<and> js_includes content
               (''export class Create'' @ toPascalCase entityName @ ''Table'' @
                timestampOf (toISOString (clock w (ticks w))) @ '' implements MigrationInterface'')))\<close>
proof (intro conjI impI)
  assume a: "fst (main_part000 args w) = None"
  from main_part000_run [OF a] obtain entityName flds idx where
    r: "js_index args 0 = Some entityName"
       "ticks (snd (main_part000 args w)) = Suc (ticks w)"
       "written (snd (main_part000 args w)) = written w @
             [(path_join [directory, entityName @ ''.interface.ts''],
                 interfaceContent (toPascalCase entityName) flds),
              (path_join [directory, entityName @ ''.service.ts''],
                 serviceContent entityName (toPascalCase entityName) (toCamelCase entityName)),
              (path_join [directory, entityName @ ''.entity.ts''],
                 entityContent (toPascalCase entityName) (toCamelCase entityName) flds),
              (path_join [directory, entityName @ ''.controller.ts''],
                 controllerContent entityName (toPascalCase entityName) (toCamelCase entityName)),
              (path_join [directory, ''migrations'',
                 ''Create'' @ toPascalCase entityName @ ''Table'' @ show_nat (clock w (ticks w)) @ ''.ts''],
                 migrationContent (toPascalCase entityName) (toCamelCase entityName) flds
                   (clock w (ticks w))),
              (indexPath, idx)]"
    by blast
  from r(2) show "ticks (snd (main_part000 args w)) = Suc (ticks w)" .
  let ?content = "migrationContent (toPascalCase entityName) (toCamelCase entityName) flds (clock w (ticks w))"
  have "(path_join [directory, ''migrations'',
               ''Create'' @ toPascalCase entityName @ ''Table'' @ show_nat (clock w (ticks w)) @ ''.ts''],
              ?content) \<in> set (written (snd (main_part000 args w)))"
    by (simp add: r(3))
  with r(1) migration_part000_class [of "toPascalCase entityName" "toCamelCase entityName" flds "clock w (ticks w)"]
  show "\<exists>entityName content.
           js_index args 0 = Some entityName
         \<and> (path_join [directory, ''migrations'',
               ''Create'' @ toPascalCase entityName @ ''Table'' @ show_nat (clock w (ticks w)) @ ''.ts''],
              content) \<in> set (written (snd (main_part000 args w)))
         \<and> js_includes content
               (''export class Create'' @ toPascalCase entityName @ ''Table'' @
                show_nat (clock w (ticks w)) @ '' implements MigrationInterface'')"
    by blast
next
  assume a: "fst (main_scripts toISOString args w) = None"
  let ?iso = "toISOString (clock w (ticks w))"
  from main_scripts_run [OF a] obtain entityName flds ws where
    r: "js_index args 0 = Some entityName"
       "ticks (snd (main_scripts toISOString args w)) = Suc (ticks w)"
       "written (snd (main_scripts toISOString args w)) = written w @
             [(path_join [path_join [''apps'', ''zeus'', ''src'', ''app'', entityName],
                          entityName @ ''.entity.ts''],
                 generateEntity entityName flds),
              (path_join [path_join [''apps'', ''zeus'', ''src'', ''app'', entityName],
                          entityName @ ''.module.ts''],
                 generateModule entityName),
              (path_join [path_join [''apps'', ''zeus'', ''src'', ''app'', entityName],
                          entityName @ ''.service.ts''],
                 generateService entityName),
              (path_join [path_join [''apps'', ''zeus'', ''src'', ''app'', entityName],
                          entityName @ ''.controller.ts''],
                 generateController entityName),
              (path_join [path_join [''apps'', ''zeus'', ''src'', ''app'', entityName],
                          ''dto'', ''create-'' @ entityName @ ''.dto.ts''],
                 generateCreateDto entityName flds),
              (path_join [path_join [''apps'', ''zeus'', ''src'', ''app'', entityName],
                          ''dto'', ''update-'' @ entityName @ ''.dto.ts''],
                 generateUpdateDto entityName),
              (path_join [path_join [''apps'', ''zeus'', ''src'', ''migrations''],
                          timestampOf (toISOString (clock w (ticks w))) @ ''_create_'' @
                          toSnakeCase (toPascalCase entityName) @ ''_table.ts''],
                 fst (generateMigration entityName flds (toISOString (clock w (ticks w))))),
              (path_join [path_join [''libs'', ''olympus'', ''core'', ''src'', ''lib'', ''models''],
                          entityName @ ''.ts''],
                 generateInterface entityName flds),
              (path_join [path_join [''libs'', ''olympus'', ''core'', ''src'', ''lib'', ''services''],
                          entityName @ ''.service.ts''],
                 generateAngularService entityName)] @ ws"
    by blast
  have m: "(path_join [path_join [''apps'', ''zeus'', ''src'', ''migrations''],
               timestampOf ?iso @ ''_create_'' @
               toSnakeCase (toPascalCase entityName) @ ''_table.ts''],
         fst (generateMigration entityName flds ?iso)) \<in> set (written (snd (main_scripts toISOString args w)))"
    by (simp add: r(3))
  from r(2) show "ticks (snd (main_scripts toISOString args w)) = Suc (ticks w)" .
  from r(1) m migration_scripts_class [of entityName flds ?iso]
  show "\<exists>entityName content.
           js_index args 0 = Some entityName
         \<and> (path_join [path_join [''apps'', ''zeus'', ''src'', ''migrations''],
               timestampOf (toISOString (clock w (ticks w))) @ ''_create_'' @
               toSnakeCase (toPascalCase entityName) @ ''_table.ts''],
              content) \<in> set (written (snd (main_scripts toISOString args w)))
         \<and> js_includes content
               (''export class Create'' @ toPascalCase entityName @ ''Table'' @
                timestampOf (toISOString (clock w (ticks w))) @ '' implements MigrationInterface'')"
    by blast
qed


theorem migration_timestamp_shared_witness:
  \<open>fst (main_part000 [''product'', ''name:string'']
          \<lparr> disk = (\<lambda>path. None), written = [], clock = (\<lambda>n. 1730563200123), ticks = 0 \<rparr>) = None
   \<and> ticks (snd (main_part000 [''product'', ''name:string'']
          \<lparr> disk = (\<lambda>path. None), written = [], clock = (\<lambda>n. 1730563200123), ticks = 0 \<rparr>)) = 1
   \<and> map fst (written (snd (main_part000 [''product'', ''name:string'']
          \<lparr> disk = (\<lambda>path. None), written = [], clock = (\<lambda>n. 1730563200123), ticks = 0 \<rparr>))) ! 4
       = ''libs/olympus/core/src/lib/migrations/CreateProductTable1730563200123.ts''
   \<and> fst (main_scripts (\<lambda>n. ''2026-11-02T16:16:05.123Z'') [''product'', ''name:string'']
          \<lparr> disk = (\<lambda>path. None), written = [], clock = (\<lambda>n. 1730563200123), ticks = 0 \<rparr>) = None
   \<and> ticks (snd (main_scripts (\<lambda>n. ''2026-11-02T16:16:05.123Z'') [''product'', ''name:string'']
          \<lparr> disk = (\<lambda>path. None), written = [], clock = (\<lambda>n. 1730563200123), ticks = 0 \<rparr>)) = 1
   \<and> map fst (written (snd (main_scripts (\<lambda>n. ''2026-11-02T16:16:05.123Z'') [''product'', ''name:string'']
          \<lparr> disk = (\<lambda>path. None), written = [], clock = (\<lambda>n. 1730563200123), ticks = 0 \<rparr>))) ! 6
       = ''apps/zeus/src/migrations/20261102161605_create_product_table.ts''\<close>
proof -
  let ?w = "\<lparr> disk = (\<lambda>path. None), written = [], clock = (\<lambda>n. 1730563200123), ticks = 0 \<rparr>"
  let ?a = "[''product'', ''name:string'']"
  let ?iso = "\<lambda>n::nat. ''2026-11-02T16:16:05.123Z''"
  have p: "parseFields_part000 ''name:string'' =
             Inr [\<lparr> name = ''name'', type = ''string'', isOptional = False \<rparr>]"
    by (simp add: parseFields_part000_def parseField_part000_def js_trim_def isSpace_def
          js_index_def js_includes_Cons js_includes_Nil)
  have q: "parseFields_scripts ''name:string'' =
             Inr [\<lparr> name = ''name'', type = ''string'', isOptional = False,
                    decorators = [''@Column()''] \<rparr>]"
    by (simp add: parseFields_scripts_def parseField_scripts_def js_trim_def isSpace_def
          js_index_def js_includes_Cons js_includes_Nil resolveType_scripts_def toLowerCase_def
          lowerChar_def upperLetters_def lowerLetters_def)
  have h1: "fst (main_part000 ?a ?w) = None"
    by (simp add: main_part000_def js_index_def p Let_def split_beta)
  have h2: "fst (main_scripts ?iso ?a ?w) = None"
    by (simp add: main_scripts_def js_index_def q Let_def split_beta)
  have n1: "map fst (written (snd (main_part000 ?a ?w))) ! 4
       = ''libs/olympus/core/src/lib/migrations/CreateProductTable1730563200123.ts''"
    by (simp add: main_part000_def js_index_def p Let_def split_beta Date_now_def
          updateIndex_part000_def path_join_def directory_def toPascalCase_def toUpperCase_def
          upperChar_def upperLetters_def lowerLetters_def show_nat.simps digitChar_def)
  have n2: "map fst (written (snd (main_scripts ?iso ?a ?w))) ! 6
       = ''apps/zeus/src/migrations/20261102161605_create_product_table.ts''"
  proof -
    from main_scripts_run [OF h2] obtain entityName flds ws where
      e: "js_index ?a 0 = Some entityName" and
      r: "written (snd (main_scripts ?iso ?a ?w)) = written ?w @
             [(path_join [path_join [''apps'', ''zeus'', ''src'', ''app'', entityName],
                          entityName @ ''.entity.ts''],
                 generateEntity entityName flds),
              (path_join [path_join [''apps'', ''zeus'', ''src'', ''app'', entityName],
                          entityName @ ''.module.ts''],
                 generateModule entityName),
              (path_join [path_join [''apps'', ''zeus'', ''src'', ''app'', entityName],
                          entityName @ ''.service.ts''],
                 generateService entityName),
              (path_join [path_join [''apps'', ''zeus'', ''src'', ''app'', entityName],
                          entityName @ ''.controller.ts''],
                 generateController entityName),
              (path_join [path_join [''apps'', ''zeus'', ''src'', ''app'', entityName],
                          ''dto'', ''create-'' @ entityName @ ''.dto.ts''],
                 generateCreateDto entityName flds),
              (path_join [path_join [''apps'', ''zeus'', ''src'', ''app'', entityName],
                          ''dto'', ''update-'' @ entityName @ ''.dto.ts''],
                 generateUpdateDto entityName),
              (path_join [path_join [''apps'', ''zeus'', ''src'', ''migrations''],
                          timestampOf (?iso (clock ?w (ticks ?w))) @ ''_create_'' @
                          toSnakeCase (toPascalCase entityName) @ ''_table.ts''],
                 fst (generateMigration entityName flds (?iso (clock ?w (ticks ?w))))),
              (path_join [path_join [''libs'', ''olympus'', ''core'', ''src'', ''lib'', ''models''],
                          entityName @ ''.ts''],
                 generateInterface entityName flds),
              (path_join [path_join [''libs'', ''olympus'', ''core'', ''src'', ''lib'', ''services''],
                          entityName @ ''.service.ts''],
                 generateAngularService entityName)] @ ws"
      by blast
    from e have "entityName = ''product''" by (simp add: js_index_def)
    with r show ?thesis
      by (simp add: timestampOf_def js_index_def
          path_join_def toPascalCase_def toUpperCase_def toSnakeCase_def underscoreCapitals_def
          stripLeadingUnderscore_def toLowerCase_def lowerChar_def
          upperChar_def upperLetters_def lowerLetters_def)
  qed
  from migration_timestamp_shared [of ?a ?w ?iso] h1 h2
  have "ticks (snd (main_part000 ?a ?w)) = Suc (ticks ?w)"
    and "ticks (snd (main_scripts ?iso ?a ?w)) = Suc (ticks ?w)"
    by blast+
  with h1 h2 n1 n2 show ?thesis by simp
qed

section \<open>Merging export lines into an index file\<close>

lemma js_includes_refl: "js_includes s s"
  by (simp add: js_includes_def)

lemma js_includes_append_left: "js_includes c x \<Longrightarrow> js_includes (c @ y) x"
  unfolding js_includes_def by (metis sublist_append)

lemma merge_part000_new: "js_includes (mergeExport_part000 c l) l"
proof -
  have "js_includes (c @ ''\<newline>'' @ l) l"
    by (intro js_includes_append js_includes_refl)
  then show ?thesis by (simp add: mergeExport_part000_def)
qed

lemma merge_part000_mono: "js_includes c x \<Longrightarrow> js_includes (mergeExport_part000 c l) x"
  by (simp add: mergeExport_part000_def js_includes_append_left)

lemma mergeIndex_part000_mono:
  "js_includes c x \<Longrightarrow> js_includes (mergeIndex_part000 c ls) x"
  unfolding mergeIndex_part000_def
  by (induction ls arbitrary: c) (simp_all add: merge_part000_mono)

lemma mergeIndex_part000_all:
  "l \<in> set ls \<Longrightarrow> js_includes (mergeIndex_part000 c ls) l"
proof (induction ls arbitrary: c)
  case Nil
  then show ?case by simp
next
  case (Cons a ls)
  show ?case
  proof (cases "l = a")
    case True
    have "js_includes (mergeIndex_part000 (mergeExport_part000 c a) ls) a"
      by (rule mergeIndex_part000_mono) (rule merge_part000_new)
    with True show ?thesis by (simp add: mergeIndex_part000_def)
  next
    case False
    with Cons.prems have "l \<in> set ls" by simp
    from Cons.IH [OF this] show ?thesis by (simp add: mergeIndex_part000_def)
  qed
qed

lemma mergeIndex_part000_present:
  "(\<And>l. l \<in> set ls \<Longrightarrow> js_includes c l) \<Longrightarrow> mergeIndex_part000 c ls = c"
  unfolding mergeIndex_part000_def
  by (induction ls) (simp_all add: mergeExport_part000_def)

lemma mergeIndex_part000_idem:
  "mergeIndex_part000 (mergeIndex_part000 c ls) ls = mergeIndex_part000 c ls"
  by (rule mergeIndex_part000_present) (rule mergeIndex_part000_all)

lemma updateIndex_part000_disk:
  "disk (updateIndex_part000 e w) indexPath =
     Some (mergeIndex_part000 (case disk w indexPath of None \<Rightarrow> [] | Some c \<Rightarrow> c) (exports_part000 e))"
  by (simp add: updateIndex_part000_def Let_def writeFileSync_def existsSync_def readFileSync_def
        split: option.splits)

lemma updateIndex_part000_twice:
  "disk (updateIndex_part000 e (updateIndex_part000 e w)) indexPath =
   disk (updateIndex_part000 e w) indexPath"
  by (simp add: updateIndex_part000_disk mergeIndex_part000_idem)

lemma merge_scripts_new: "js_includes (mergeExport_scripts ph c l) l"
proof -
  have "js_includes (l @ ''\<newline>'') l"
    by (intro js_includes_append_left js_includes_refl)
  moreover have "js_includes (c @ l @ ''\<newline>'') l"
    by (intro js_includes_append js_includes_append_left js_includes_refl)
  ultimately show ?thesis by (simp add: mergeExport_scripts_def)
qed

lemma merge_scripts_idem:
  "mergeExport_scripts ph (mergeExport_scripts ph c l) l = mergeExport_scripts ph c l"
  using merge_scripts_new [of ph c l]
  by (simp add: mergeExport_scripts_def [of ph "mergeExport_scripts ph c l" l])

lemma updateIndex_scripts_twice:
  "updateIndex_scripts p ph l (updateIndex_scripts p ph l w) = updateIndex_scripts p ph l w"
proof (cases "js_includes (if existsSync p w then readFileSync p w else []) l")
  case True
  then show ?thesis by (simp add: updateIndex_scripts_def Let_def)
next
  case False
  let ?c = "if existsSync p w then readFileSync p w else []"
  have w1: "updateIndex_scripts p ph l w = writeFileSync p (mergeExport_scripts ph ?c l) w"
    using False by (simp add: updateIndex_scripts_def Let_def)
  have "existsSync p (writeFileSync p (mergeExport_scripts ph ?c l) w)"
    and "readFileSync p (writeFileSync p (mergeExport_scripts ph ?c l) w) = mergeExport_scripts ph ?c l"
    by (simp_all add: existsSync_def readFileSync_def writeFileSync_def)
  then have "updateIndex_scripts p ph l (writeFileSync p (mergeExport_scripts ph ?c l) w)
              = writeFileSync p (mergeExport_scripts ph ?c l) w"
    using merge_scripts_new [of ph ?c l]
    by (simp add: updateIndex_scripts_def [of p ph l "writeFileSync p (mergeExport_scripts ph ?c l) w"] Let_def)
  with w1 show ?thesis by simp
qed

text \<open>
  Claim C1, as the spec states it, fails in both programs. \<^verbatim>\<open>unnamed/part_000\<close> puts
  the line separator before the appended line, not after it: merged into an empty
  index the first export line gives a text that starts with the separator and does
  not end with one. \<^verbatim>\<open>scripts/generate-crud.js\<close> does not keep the prior content when
  that content, trimmed, is the placeholder comment (or empty): the index becomes
  the export line alone.
\<close>

theorem manifest_merge_counterexample:
  \<open>\<not> js_includes [] ''export * from './lib/user.interface';''
   \<and> mergeExport_part000 [] ''export * from './lib/user.interface';'' =
       ''\<newline>export * from './lib/user.interface';''
   \<and> mergeExport_part000 [] ''export * from './lib/user.interface';'' \<noteq>
       [] @ ''export * from './lib/user.interface';'' @ ''\<newline>''
   \<and> \<not> js_includes ''// Export all model interfaces here\<newline>'' ''export * from './user';''
   \<and> mergeExport_scripts ''// Export all model interfaces here''
         ''// Export all model interfaces here\<newline>'' ''export * from './user';'' =
       ''export * from './user';\<newline>''
   \<and> \<not> prefix ''// Export all model interfaces here\<newline>''
         (mergeExport_scripts ''// Export all model interfaces here''
            ''// Export all model interfaces here\<newline>'' ''export * from './user';'')\<close>
  by (simp add: mergeExport_part000_def mergeExport_scripts_def js_includes_Cons js_includes_Nil
        js_trim_def isSpace_def)

text \<open>
  Claim C1, amended: a line that the index text already contains is skipped and the
  text is unchanged. A line that it does not contain is appended: in
  \<^verbatim>\<open>unnamed/part_000\<close> after a line separator, the prior text kept in front of it; in
  \<^verbatim>\<open>scripts/generate-crud.js\<close> followed by a line separator, the prior text kept in
  front of it unless that text, trimmed, is empty or is the placeholder comment, in
  which case the line and its separator replace it. Merging the same lines a second
  time changes nothing, so the text, its set of lines and the file on disk after two
  runs are those after one; the second run of \<^verbatim>\<open>scripts/generate-crud.js\<close> does not
  write the index at all.
\<close>

theorem manifest_merge:
  \<open>(js_includes c l \<longrightarrow> mergeExport_part000 c l = c)
   \<and> (\<not> js_includes c l \<longrightarrow> mergeExport_part000 c l = c @ ''\<newline>'' @ l)
   \<and> mergeIndex_part000 (mergeIndex_part000 c ls) ls = mergeIndex_part000 c ls
   \<and> set (js_split (CHR ''\<newline>'') (mergeIndex_part000 (mergeIndex_part000 c ls) ls)) =
       set (js_split (CHR ''\<newline>'') (mergeIndex_part000 c ls))
   \<and> disk (updateIndex_part000 e (updateIndex_part000 e w)) indexPath =
       disk (updateIndex_part000 e w) indexPath
   \<and> (js_includes c l \<longrightarrow> mergeExport_scripts ph c l = c)
   \<and> (\<not> js_includes c l \<and> js_trim c \<noteq> [] \<and> js_trim c \<noteq> ph \<longrightarrow>
        mergeExport_scripts ph c l = c @ l @ ''\<newline>'')
   \<and> (\<not> js_includes c l \<and> (js_trim c = [] \<or> js_trim c = ph) \<longrightarrow>
        mergeExport_scripts ph c l = l @ ''\<newline>'')
   \<and> mergeExport_scripts ph (mergeExport_scripts ph c l) l = mergeExport_scripts ph c l
   \<and> updateIndex_scripts p ph l (updateIndex_scripts p ph l w) = updateIndex_scripts p ph l w\<close>
proof -
  have a: "js_includes c l \<longrightarrow> mergeExport_part000 c l = c"
    and b: "\<not> js_includes c l \<longrightarrow> mergeExport_part000 c l = c @ ''\<newline>'' @ l"
    by (simp_all add: mergeExport_part000_def)
  have d: "set (js_split (CHR ''\<newline>'') (mergeIndex_part000 (mergeIndex_part000 c ls) ls)) =
       set (js_split (CHR ''\<newline>'') (mergeIndex_part000 c ls))"
    by (simp add: mergeIndex_part000_idem)
  have f: "js_includes c l \<longrightarrow> mergeExport_scripts ph c l = c"
    and g: "\<not> js_includes c l \<and> js_trim c \<noteq> [] \<and> js_trim c \<noteq> ph \<longrightarrow>
        mergeExport_scripts ph c l = c @ l @ ''\<newline>''"
    and h: "\<not> js_includes c l \<and> (js_trim c = [] \<or> js_trim c = ph) \<longrightarrow>
        mergeExport_scripts ph c l = l @ ''\<newline>''"
    by (simp_all add: mergeExport_scripts_def)
  show ?thesis
    by (intro conjI a b d f g h mergeIndex_part000_idem updateIndex_part000_twice
          merge_scripts_idem updateIndex_scripts_twice)
qed


theorem manifest_merge_witness:
  \<open>mergeExport_part000 ''export * from './lib/user.service';'' ''export * from './lib/user.entity';'' =
     ''export * from './lib/user.service';\<newline>export * from './lib/user.entity';''
   \<and> mergeExport_part000 ''export * from './lib/user.service';\<newline>export * from './lib/user.entity';''
       ''export * from './lib/user.entity';'' =
     ''export * from './lib/user.service';\<newline>export * from './lib/user.entity';''
   \<and> mergeExport_scripts ''// Export all services here'' ''export * from './a.service';\<newline>''
       ''export * from './b.service';'' =
     ''export * from './a.service';\<newline>export * from './b.service';\<newline>''
   \<and> mergeExport_scripts ''// Export all services here'' ''  // Export all services here\<newline>''
       ''export * from './b.service';'' =
     ''export * from './b.service';\<newline>''
   \<and> mergeExport_scripts ''// Export all services here''
       ''export * from './a.service';\<newline>export * from './b.service';\<newline>''
       ''export * from './b.service';'' =
     ''export * from './a.service';\<newline>export * from './b.service';\<newline>''\<close>
proof -
  have i1: "\<not> js_includes ''export * from './lib/user.service';'' ''export * from './lib/user.entity';''"
    and i2: "js_includes ''export * from './lib/user.service';\<newline>export * from './lib/user.entity';''
       ''export * from './lib/user.entity';''"
    and i3: "\<not> js_includes ''export * from './a.service';\<newline>'' ''export * from './b.service';''"
    and i4: "\<not> js_includes ''  // Export all services here\<newline>'' ''export * from './b.service';''"
    and i5: "js_includes ''export * from './a.service';\<newline>export * from './b.service';\<newline>''
       ''export * from './b.service';''"
    by (simp_all add: js_includes_Cons js_includes_Nil)
  have t1: "js_trim ''export * from './a.service';\<newline>'' \<noteq> []"
    and t2: "js_trim ''export * from './a.service';\<newline>'' \<noteq> ''// Export all services here''"
    and t3: "js_trim ''  // Export all services here\<newline>'' = ''// Export all services here''"
    by (simp_all add: js_trim_def isSpace_def)
  from manifest_merge [of "''export * from './lib/user.service';''" "''export * from './lib/user.entity';''"] i1
  have r1: "mergeExport_part000 ''export * from './lib/user.service';'' ''export * from './lib/user.entity';'' =
     ''export * from './lib/user.service';'' @ ''\<newline>'' @ ''export * from './lib/user.entity';''"
    by blast
  from manifest_merge [of "''export * from './lib/user.service';\<newline>export * from './lib/user.entity';''"
         "''export * from './lib/user.entity';''"] i2
  have r2: "mergeExport_part000 ''export * from './lib/user.service';\<newline>export * from './lib/user.entity';''
       ''export * from './lib/user.entity';'' =
     ''export * from './lib/user.service';\<newline>export * from './lib/user.entity';''"
    by blast
  from manifest_merge [of "''export * from './a.service';\<newline>''" "''export * from './b.service';''"
         _ _ _ "''// Export all services here''"] i3 t1 t2
  have r3: "mergeExport_scripts ''// Export all services here'' ''export * from './a.service';\<newline>''
       ''export * from './b.service';'' =
     ''export * from './a.service';\<newline>'' @ ''export * from './b.service';'' @ ''\<newline>''"
    by blast
  from manifest_merge [of "''  // Export all services here\<newline>''" "''export * from './b.service';''"
         _ _ _ "''// Export all services here''"] i4 t3
  have r4: "mergeExport_scripts ''// Export all services here'' ''  // Export all services here\<newline>''
       ''export * from './b.service';'' =
     ''export * from './b.service';'' @ ''\<newline>''"
    by blast
  from manifest_merge [of "''export * from './a.service';\<newline>export * from './b.service';\<newline>''"
         "''export * from './b.service';''" _ _ _ "''// Export all services here''"] i5
  have r5: "mergeExport_scripts ''// Export all services here''
       ''export * from './a.service';\<newline>export * from './b.service';\<newline>''
       ''export * from './b.service';'' =
     ''export * from './a.service';\<newline>export * from './b.service';\<newline>''"
    by blast
  from r1 r2 r3 r4 r5 show ?thesis by simp
qed

section \<open>Parsing one field token\<close>

lemma js_split_first_two:
  assumes "c \<notin> set nm" "c \<notin> set ty" "rest = [] \<or> (\<exists>r. rest = c # r)"
  shows "\<exists>segs. js_split c (nm @ c # ty @ rest) = nm # ty # segs"
proof -
  have "\<exists>segs. js_split c (ty @ rest) = ty # segs"
  proof (cases "rest = []")
    case True
    with assms(2) show ?thesis by (simp add: js_split_no_sep)
  next
    case False
    with assms(3) obtain r where "rest = c # r" by blast
    with assms(2) show ?thesis by (simp add: js_split_append js_split_no_sep)
  qed
  with assms(1) show ?thesis by (auto simp: js_split_append js_split_no_sep)
qed

lemma js_index_first_two:
  "js_index (a # b # segs) 0 = Some a" "js_index (a # b # segs) (Suc 0) = Some b"
  "js_index [a] 0 = Some a" "js_index [a] (Suc 0) = None"
  by (simp_all add: js_index_def)

lemma parseField_part000_split:
  assumes "js_trim fld = nm @ CHR '':'' # ty @ rest"
    and "CHR '':'' \<notin> set nm" "CHR '':'' \<notin> set ty" "rest = [] \<or> (\<exists>r. rest = CHR '':'' # r)"
  shows "parseField_part000 fld =
           Inr \<lparr> name = js_replace nm ''?'' [],
                 type = (if ty = [] then ''string'' else ty),
                 isOptional = js_includes nm ''?'' \<rparr>"
proof -
  from js_split_first_two [OF assms(2-4)] obtain segs where
    "js_split (CHR '':'') (js_trim fld) = nm # ty # segs"
    by (auto simp: assms(1))
  then show ?thesis
    by (simp add: parseField_part000_def js_index_first_two)
qed

lemma parseField_part000_no_colon:
  assumes "CHR '':'' \<notin> set (js_trim fld)"
  shows "parseField_part000 fld =
           Inr \<lparr> name = js_replace (js_trim fld) ''?'' [], type = ''string'',
                 isOptional = js_includes (js_trim fld) ''?'' \<rparr>"
  using assms by (simp add: parseField_part000_def js_split_no_sep js_index_first_two)

lemma parseField_scripts_split:
  assumes "js_trim fld = nm @ CHR '':'' # ty @ rest"
    and "CHR '':'' \<notin> set nm" "CHR '':'' \<notin> set ty" "rest = [] \<or> (\<exists>r. rest = CHR '':'' # r)"
  shows "\<exists>d. parseField_scripts fld =
           Inr \<lparr> name = js_trim nm,
                 type = fst (resolveType_scripts (js_replace ty ''?'' [])),
                 isOptional = js_includes ty ''?'',
                 decorators = [d] \<rparr>
             \<and> js_includes d ''nullable: true'' = js_includes ty ''?''"
proof -
  from js_split_first_two [OF assms(2-4)] obtain segs where
    s: "js_split (CHR '':'') (js_trim fld) = nm # ty # segs"
    by (auto simp: assms(1))
  obtain ft decs where r: "resolveType_scripts (js_replace ty ''?'' []) = (ft, decs)"
    by (cases "resolveType_scripts (js_replace ty ''?'' [])") simp
  show ?thesis
  proof (cases "js_includes ty ''?''")
    case True
    from markNullable_resolve [of "js_replace ty ''?'' []"] r obtain d where
      "markNullable decs = Inr [d]" "js_includes d ''nullable: true''" by auto
    with s r True show ?thesis
      by (simp add: parseField_scripts_def js_index_first_two)
  next
    case False
    from plain_resolve [of "js_replace ty ''?'' []"] r obtain d where
      "decs = [d]" "\<not> js_includes d ''nullable: true''" by auto
    with s r False show ?thesis
      by (simp add: parseField_scripts_def js_index_first_two)
  qed
qed

lemma parseField_scripts_no_colon:
  assumes "CHR '':'' \<notin> set (js_trim fld)"
  shows "parseField_scripts fld = Inl TypeError"
  using assms by (simp add: parseField_scripts_def js_split_no_sep js_index_first_two)

lemma set_js_trim: "set (js_trim s) \<subseteq> set s"
proof -
  have "set (dropWhile isSpace (rev (dropWhile isSpace s))) \<subseteq> set (rev (dropWhile isSpace s))"
    by (auto dest: set_dropWhileD)
  also have "\<dots> \<subseteq> set s" by (auto dest: set_dropWhileD)
  finally show ?thesis by (simp add: js_trim_def)
qed

lemma js_trim_keeps_last:
  assumes "\<not> isSpace c"
  shows "c \<in> set (js_trim (xs @ [c]))"
proof -
  have "\<exists>zs. dropWhile isSpace (xs @ [c]) = zs @ [c]"
  proof (cases "\<forall>x\<in>set xs. isSpace x")
    case True
    with assms have "dropWhile isSpace (xs @ [c]) = [] @ [c]"
      by (simp add: dropWhile_append)
    then show ?thesis by blast
  next
    case False
    then have "dropWhile isSpace (xs @ [c]) = dropWhile isSpace xs @ [c]"
      by (simp add: dropWhile_append)
    then show ?thesis by blast
  qed
  then obtain zs where "dropWhile isSpace (xs @ [c]) = zs @ [c]" by blast
  with assms show ?thesis by (simp add: js_trim_def)
qed

text \<open>
  Claim C9, as the spec states it, fails in both programs: \<^verbatim>\<open>split(':')\<close> cuts the token
  at every \<^verbatim>\<open>:\<close> and the destructuring keeps the first two segments, so the type of
  \<^verbatim>\<open>a:b:c\<close> is \<^verbatim>\<open>b\<close>, not \<^verbatim>\<open>b:c\<close>.
\<close>

theorem type_token_counterexample:
  \<open>parseField_part000 ''a:b:c'' = Inr \<lparr> name = ''a'', type = ''b'', isOptional = False \<rparr>
   \<and> parseField_scripts ''a:b:c'' =
       Inr \<lparr> name = ''a'', type = ''b'', isOptional = False, decorators = [''@Column()''] \<rparr>\<close>
  by (simp add: parseField_part000_def parseField_scripts_def js_trim_def isSpace_def
        js_index_def js_includes_Cons js_includes_Nil resolveType_scripts_def toLowerCase_def
        lowerChar_def upperLetters_def lowerLetters_def)

text \<open>
  Claim C9, amended: the trimmed token is cut at every \<^verbatim>\<open>:\<close>. The segment before the
  first \<^verbatim>\<open>:\<close> gives the field name and the segment between the first and the second
  \<^verbatim>\<open>:\<close> (the whole remaining text when there is no second one) gives the type token;
  whatever follows a second \<^verbatim>\<open>:\<close> has no effect on the parsed field. (The name has its
  first \<^verbatim>\<open>?\<close> removed in \<^verbatim>\<open>unnamed/part_000\<close> and is trimmed in
  \<^verbatim>\<open>scripts/generate-crud.js\<close>; the type has its first \<^verbatim>\<open>?\<close> removed and is resolved in
  \<^verbatim>\<open>scripts/generate-crud.js\<close>, and is replaced by \<^verbatim>\<open>string\<close> when empty in
  \<^verbatim>\<open>unnamed/part_000\<close>.)
\<close>

theorem split_on_every_colon:
  assumes \<open>js_trim fld = nm @ '':'' @ ty @ rest\<close>
    and \<open>CHR '':'' \<notin> set nm\<close> \<open>CHR '':'' \<notin> set ty\<close>
    and \<open>rest = [] \<or> (\<exists>r. rest = CHR '':'' # r)\<close>
  shows \<open>parseField_part000 fld =
           Inr \<lparr> name = js_replace nm ''?'' [],
                 type = (if ty = [] then ''string'' else ty),
                 isOptional = js_includes nm ''?'' \<rparr>
         \<and> (\<exists>d. parseField_scripts fld =
                Inr \<lparr> name = js_trim nm,
                      type = fst (resolveType_scripts (js_replace ty ''?'' [])),
                      isOptional = js_includes ty ''?'',
                      decorators = [d] \<rparr>)\<close>
proof -
  from assms(1) have t: "js_trim fld = nm @ CHR '':'' # ty @ rest" by simp
  from parseField_scripts_split [OF t assms(2-4)]
  have "\<exists>d. parseField_scripts fld =
                Inr \<lparr> name = js_trim nm,
                      type = fst (resolveType_scripts (js_replace ty ''?'' [])),
                      isOptional = js_includes ty ''?'',
                      decorators = [d] \<rparr>"
    by blast
  with parseField_part000_split [OF t assms(2-4)] show ?thesis by blast
qed


theorem split_on_every_colon_witness:
  \<open>parseField_part000 ''price:number:extra'' =
     Inr \<lparr> name = ''price'', type = ''number'', isOptional = False \<rparr>
   \<and> parseField_part000 ''price:number'' =
     Inr \<lparr> name = ''price'', type = ''number'', isOptional = False \<rparr>\<close>
proof -
  have t1: "js_trim ''price:number:extra'' = ''price'' @ '':'' @ ''number'' @ '':extra''"
    and t2: "js_trim ''price:number'' = ''price'' @ '':'' @ ''number'' @ []"
    by (simp_all add: js_trim_def isSpace_def)
  have c1: "CHR '':'' \<notin> set ''price''" and c2: "CHR '':'' \<notin> set ''number''"
    by simp_all
  have r1: "'':extra'' = [] \<or> (\<exists>r. '':extra'' = CHR '':'' # r)"
    and r2: "([]::string) = [] \<or> (\<exists>r. ([]::string) = CHR '':'' # r)"
    by simp_all
  from split_on_every_colon [OF t1 c1 c2 r1] split_on_every_colon [OF t2 c1 c2 r2]
  show ?thesis by (simp add: js_includes_Cons js_includes_Nil)
qed

section \<open>The optional marker\<close>

text \<open>
  Claim C5, as the spec states it, fails in both programs: each parser looks for the
  marker on one side only. \<^verbatim>\<open>unnamed/part_000\<close> does not see a marker on the type, and
  leaves it in the type token; \<^verbatim>\<open>scripts/generate-crud.js\<close> does not see a marker on
  the name, and leaves it in the name.
\<close>

theorem optional_marker_counterexample:
  \<open>parseField_part000 ''description:string?'' =
     Inr \<lparr> name = ''description'', type = ''string?'', isOptional = False \<rparr>
   \<and> parseField_scripts ''description?:string'' =
     Inr \<lparr> name = ''description?'', type = ''string'', isOptional = False,
           decorators = [''@Column()''] \<rparr>\<close>
  by (simp add: parseField_part000_def parseField_scripts_def js_trim_def isSpace_def
        js_index_def js_includes_Cons js_includes_Nil resolveType_scripts_def toLowerCase_def
        lowerChar_def upperLetters_def lowerLetters_def)

text \<open>
  Claim C5, amended: in \<^verbatim>\<open>unnamed/part_000\<close> a token \<^verbatim>\<open>name?:type\<close> parses to the name
  without the marker and the optional flag set, and a token \<^verbatim>\<open>name:type?\<close> parses to
  the flag unset and a type token that still ends with the marker. In
  \<^verbatim>\<open>scripts/generate-crud.js\<close> a token \<^verbatim>\<open>name:type?\<close> parses to the type resolved
  without the marker, the optional flag set and a nullable column decorator, and a
  token \<^verbatim>\<open>name?:type\<close> parses to the flag unset and a name that still contains the
  marker.
\<close>

theorem optional_marker_one_side:
  \<open>(js_trim fld = nm @ ''?:'' @ ty \<and> CHR '':'' \<notin> set nm \<and> CHR ''?'' \<notin> set nm \<and> CHR '':'' \<notin> set ty \<longrightarrow>
      parseField_part000 fld =
        Inr \<lparr> name = nm, type = (if ty = [] then ''string'' else ty), isOptional = True \<rparr>)
   \<and> (js_trim fld = nm @ '':'' @ ty @ ''?'' \<and> CHR '':'' \<notin> set nm \<and> CHR ''?'' \<notin> set nm \<and> CHR '':'' \<notin> set ty \<longrightarrow>
      parseField_part000 fld = Inr \<lparr> name = nm, type = ty @ ''?'', isOptional = False \<rparr>)
   \<and> (js_trim fld = nm @ '':'' @ ty @ ''?'' \<and> CHR '':'' \<notin> set nm \<and> CHR '':'' \<notin> set ty \<and> CHR ''?'' \<notin> set ty \<longrightarrow>
      (\<exists>d. parseField_scripts fld =
              Inr \<lparr> name = js_trim nm, type = fst (resolveType_scripts ty), isOptional = True,
                    decorators = [d] \<rparr>
           \<and> js_includes d ''nullable: true''))
   \<and> (js_trim fld = nm @ ''?:'' @ ty \<and> CHR '':'' \<notin> set nm \<and> CHR '':'' \<notin> set ty \<and> CHR ''?'' \<notin> set ty \<longrightarrow>
      (\<exists>d. parseField_scripts fld =
              Inr \<lparr> name = js_trim (nm @ ''?''), type = fst (resolveType_scripts ty),
                    isOptional = False, decorators = [d] \<rparr>
           \<and> CHR ''?'' \<in> set (js_trim (nm @ ''?''))))\<close>
proof (intro conjI impI; elim conjE)
  assume a: "js_trim fld = nm @ ''?:'' @ ty" "CHR '':'' \<notin> set nm" "CHR ''?'' \<notin> set nm"
    "CHR '':'' \<notin> set ty"
  from a(1) have t: "js_trim fld = (nm @ ''?'') @ CHR '':'' # ty @ []" by simp
  from a(2) have n: "CHR '':'' \<notin> set (nm @ ''?'')" by simp
  from parseField_part000_split [OF t n a(4)] a(3)
  show "parseField_part000 fld =
        Inr \<lparr> name = nm, type = (if ty = [] then ''string'' else ty), isOptional = True \<rparr>"
    by (simp add: js_replace_char js_includes_char)
next
  assume a: "js_trim fld = nm @ '':'' @ ty @ ''?''" "CHR '':'' \<notin> set nm" "CHR ''?'' \<notin> set nm"
    "CHR '':'' \<notin> set ty"
  from a(1) have t: "js_trim fld = nm @ CHR '':'' # (ty @ ''?'') @ []" by simp
  from a(4) have n: "CHR '':'' \<notin> set (ty @ ''?'')" by simp
  from parseField_part000_split [OF t a(2) n] a(3)
  show "parseField_part000 fld = Inr \<lparr> name = nm, type = ty @ ''?'', isOptional = False \<rparr>"
    by (simp add: js_replace_absent js_includes_char)
next
  assume a: "js_trim fld = nm @ '':'' @ ty @ ''?''" "CHR '':'' \<notin> set nm" "CHR '':'' \<notin> set ty"
    "CHR ''?'' \<notin> set ty"
  from a(1) have t: "js_trim fld = nm @ CHR '':'' # (ty @ ''?'') @ []" by simp
  from a(3) have n: "CHR '':'' \<notin> set (ty @ ''?'')" by simp
  from parseField_scripts_split [OF t a(2) n] a(4)
  show "\<exists>d. parseField_scripts fld =
              Inr \<lparr> name = js_trim nm, type = fst (resolveType_scripts ty), isOptional = True,
                    decorators = [d] \<rparr>
           \<and> js_includes d ''nullable: true''"
    by (simp add: js_replace_char js_includes_char)
next
  assume a: "js_trim fld = nm @ ''?:'' @ ty" "CHR '':'' \<notin> set nm" "CHR '':'' \<notin> set ty"
    "CHR ''?'' \<notin> set ty"
  from a(1) have t: "js_trim fld = (nm @ ''?'') @ CHR '':'' # ty @ []" by simp
  from a(2) have n: "CHR '':'' \<notin> set (nm @ ''?'')" by simp
  have q: "CHR ''?'' \<in> set (js_trim (nm @ ''?''))"
    by (rule js_trim_keeps_last) (simp add: isSpace_def)
  from parseField_scripts_split [OF t n a(3)] a(4) q
  show "\<exists>d. parseField_scripts fld =
              Inr \<lparr> name = js_trim (nm @ ''?''), type = fst (resolveType_scripts ty),
                    isOptional = False, decorators = [d] \<rparr>
           \<and> CHR ''?'' \<in> set (js_trim (nm @ ''?''))"
    by (auto simp: js_replace_absent js_includes_char)
qed


theorem optional_marker_one_side_witness:
  \<open>parseField_part000 ''isActive?:boolean'' =
     Inr \<lparr> name = ''isActive'', type = ''boolean'', isOptional = True \<rparr>
   \<and> parseField_part000 ''isActive:boolean?'' =
     Inr \<lparr> name = ''isActive'', type = ''boolean?'', isOptional = False \<rparr>\<close>
proof -
  have t1: "js_trim ''isActive?:boolean'' = ''isActive'' @ ''?:'' @ ''boolean''"
    and t2: "js_trim ''isActive:boolean?'' = ''isActive'' @ '':'' @ ''boolean'' @ ''?''"
    by (simp_all add: js_trim_def isSpace_def)
  have c: "CHR '':'' \<notin> set ''isActive''" "CHR ''?'' \<notin> set ''isActive''"
    "CHR '':'' \<notin> set ''boolean''"
    by simp_all
  from optional_marker_one_side [of "''isActive?:boolean''" "''isActive''" "''boolean''"] t1 c
  have r1: "parseField_part000 ''isActive?:boolean'' =
     Inr \<lparr> name = ''isActive'', type = (if ''boolean'' = [] then ''string'' else ''boolean''),
           isOptional = True \<rparr>"
    by blast
  from optional_marker_one_side [of "''isActive:boolean?''" "''isActive''" "''boolean''"] t2 c
  have r2: "parseField_part000 ''isActive:boolean?'' =
     Inr \<lparr> name = ''isActive'', type = ''boolean'' @ ''?'', isOptional = False \<rparr>"
    by blast
  from r1 r2 show ?thesis by simp
qed

section \<open>Field tokens without a separator\<close>

lemma markNullable_error: "markNullable decs = Inl err \<Longrightarrow> err = TypeError"
  by (cases decs) (simp_all add: markNullable_def)

lemma parseField_scripts_error:
  assumes "parseField_scripts tok = Inl err"
  shows "err = TypeError"
proof -
  let ?parts = "js_split (CHR '':'') (js_trim tok)"
  show ?thesis
  proof (cases "js_index ?parts 1")
    case None
    with assms show ?thesis by (simp add: parseField_scripts_def)
  next
    case (Some ty)
    obtain ft decs where r: "resolveType_scripts (js_replace ty ''?'' []) = (ft, decs)"
      by (cases "resolveType_scripts (js_replace ty ''?'' [])") simp
    let ?m = "if js_includes ty ''?'' then markNullable decs else Inr decs"
    show ?thesis
    proof (cases ?m)
      case (Inl e)
      then have "e = TypeError" by (auto split: if_splits dest: markNullable_error)
      with assms Some r Inl show ?thesis by (simp add: parseField_scripts_def)
    next
      case (Inr decs')
      show ?thesis
      proof (cases "js_index ?parts 0")
        case None
        with assms Some r Inr show ?thesis by (simp add: parseField_scripts_def)
      next
        case nm: (Some nm)
        with assms Some r Inr show ?thesis by (simp add: parseField_scripts_def)
      qed
    qed
  qed
qed

lemma collect_error:
  assumes "\<And>y err. y \<in> set xs \<Longrightarrow> f y = Inl err \<Longrightarrow> err = E"
    and "x \<in> set xs" "f x = Inl E"
  shows "collect (map f xs) = Inl E"
  using assms
proof (induction xs)
  case Nil
  then show ?case by simp
next
  case (Cons a xs)
  show ?case
  proof (cases "f a")
    case (Inl e)
    have "a \<in> set (a # xs)" by simp
    from Cons.prems(1) [OF this Inl] Inl show ?thesis by simp
  next
    case (Inr v)
    with Cons.prems(2,3) have m: "x \<in> set xs" by auto
    have "err = E" if "y \<in> set xs" "f y = Inl err" for y err
    proof -
      from that(1) have "y \<in> set (a # xs)" by simp
      from Cons.prems(1) [OF this that(2)] show ?thesis .
    qed
    from Cons.IH [OF this m Cons.prems(3)] Inr show ?thesis by simp
  qed
qed

lemma parseFields_scripts_malformed:
  assumes "tok \<in> set (js_split (CHR '','') fieldsString)" "CHR '':'' \<notin> set tok"
  shows "parseFields_scripts fieldsString = Inl TypeError"
proof -
  from assms(2) set_js_trim [of tok] have "CHR '':'' \<notin> set (js_trim tok)" by blast
  then have "parseField_scripts tok = Inl TypeError" by (rule parseField_scripts_no_colon)
  with assms(1) show ?thesis
    unfolding parseFields_scripts_def
    by (intro collect_error [where x = tok]) (auto dest: parseField_scripts_error)
qed

lemma main_scripts_malformed:
  assumes "tok \<in> set (js_split (CHR '','') fieldsString)" "CHR '':'' \<notin> set tok"
  shows "main_scripts toISOString [entityName, fieldsString] w = (Some TypeError, w)"
  using parseFields_scripts_malformed [OF assms]
  by (simp add: main_scripts_def js_index_def)

lemma main_scripts_empty:
  "main_scripts toISOString [entityName, []] w = (Some TypeError, w)"
  by (rule main_scripts_malformed [where tok = "[]"]) simp_all

lemma main_part000_succeeds:
  assumes "entityName \<noteq> []"
  shows "fst (main_part000 (entityName # rest) w) = None"
proof -
  let ?fs = "case js_index (entityName # rest) 1 of None \<Rightarrow> defaultFields
             | Some s \<Rightarrow> if s = [] then defaultFields else s"
  obtain flds where "parseFields_part000 ?fs = Inr flds"
    using parseFields_part000_total by blast
  with assms show ?thesis
    by (simp add: main_part000_def Let_def js_index_def split_beta)
qed

lemma main_part000_six_files:
  assumes "entityName \<noteq> []"
  shows "length (written (snd (main_part000 (entityName # rest) w))) = length (written w) + 6"
proof -
  from main_part000_run [OF main_part000_succeeds [OF assms, of rest w]]
  obtain ws where "written (snd (main_part000 (entityName # rest) w)) = written w @ ws"
    and "length ws = 6"
    by auto
  then show ?thesis by simp
qed

lemma main_part000_empty_spec:
  "main_part000 [entityName, []] w = main_part000 [entityName, defaultFields] w"
  by (simp add: main_part000_def js_index_def defaultFields_def)

text \<open>
  Claim C6, as the spec states it, fails on \<^verbatim>\<open>unnamed/part_000\<close>: the token \<^verbatim>\<open>name\<close> is
  parsed as a field of type \<^verbatim>\<open>string\<close>, an empty specification is replaced by the
  default one, and in both cases the run succeeds and writes its six files.
\<close>

theorem malformed_spec_counterexample:
  \<open>parseFields_part000 ''name'' = Inr [\<lparr> name = ''name'', type = ''string'', isOptional = False \<rparr>]
   \<and> fst (main_part000 [''product'', ''name'']
          \<lparr> disk = (\<lambda>path. None), written = [], clock = (\<lambda>n. 1730563200123), ticks = 0 \<rparr>) = None
   \<and> length (written (snd (main_part000 [''product'', ''name'']
          \<lparr> disk = (\<lambda>path. None), written = [], clock = (\<lambda>n. 1730563200123), ticks = 0 \<rparr>))) = 6
   \<and> fst (main_part000 [''product'', []]
          \<lparr> disk = (\<lambda>path. None), written = [], clock = (\<lambda>n. 1730563200123), ticks = 0 \<rparr>) = None
   \<and> length (written (snd (main_part000 [''product'', []]
          \<lparr> disk = (\<lambda>path. None), written = [], clock = (\<lambda>n. 1730563200123), ticks = 0 \<rparr>))) = 6\<close>
proof -
  have "parseFields_part000 ''name'' = Inr [\<lparr> name = ''name'', type = ''string'', isOptional = False \<rparr>]"
    by (simp add: parseFields_part000_def parseField_part000_def js_trim_def isSpace_def
          js_index_def js_includes_Cons js_includes_Nil)
  moreover have "''product'' \<noteq> []" by simp
  ultimately show ?thesis
    by (simp add: main_part000_succeeds main_part000_six_files)
qed

text \<open>
  Claim C6, amended: in \<^verbatim>\<open>scripts/generate-crud.js\<close> a specification with a token that
  contains no \<^verbatim>\<open>:\<close>, the empty specification among them, makes the run fail with the
  engine's \<open>TypeError\<close> (which names neither the token nor its index) and leaves the
  world as it was: no file is written and the clock is not read. In
  \<^verbatim>\<open>unnamed/part_000\<close> parsing never fails and yields one field per comma-separated
  token; a token with no \<^verbatim>\<open>:\<close> is a field of type \<^verbatim>\<open>string\<close>; an empty
  specification runs as the default specification; and every run with a non-empty
  entity name succeeds and writes six files.
\<close>

theorem malformed_spec:
  \<open>(tok \<in> set (js_split (CHR '','') fieldsString) \<and> CHR '':'' \<notin> set tok \<longrightarrow>
      main_scripts toISOString [entityName, fieldsString] w = (Some TypeError, w))
   \<and> main_scripts toISOString [entityName, []] w = (Some TypeError, w)
   \<and> (CHR '':'' \<notin> set tok \<longrightarrow>
      parseField_part000 tok =
        Inr \<lparr> name = js_replace (js_trim tok) ''?'' [], type = ''string'',
              isOptional = js_includes (js_trim tok) ''?'' \<rparr>)
   \<and> (\<exists>flds. parseFields_part000 fieldsString = Inr flds
         \<and> length flds = length (js_split (CHR '','') fieldsString))
   \<and> main_part000 [entityName, []] w = main_part000 [entityName, defaultFields] w
   \<and> (entityName \<noteq> [] \<longrightarrow>
        fst (main_part000 (entityName # rest) w) = None
      \<and> length (written (snd (main_part000 (entityName # rest) w))) = length (written w) + 6)\<close>
proof -
  have a: "tok \<in> set (js_split (CHR '','') fieldsString) \<and> CHR '':'' \<notin> set tok \<longrightarrow>
      main_scripts toISOString [entityName, fieldsString] w = (Some TypeError, w)"
    using main_scripts_malformed by blast
  have c: "CHR '':'' \<notin> set tok \<longrightarrow>
      parseField_part000 tok =
        Inr \<lparr> name = js_replace (js_trim tok) ''?'' [], type = ''string'',
              isOptional = js_includes (js_trim tok) ''?'' \<rparr>"
  proof
    assume "CHR '':'' \<notin> set tok"
    with set_js_trim [of tok] have "CHR '':'' \<notin> set (js_trim tok)" by blast
    then show "parseField_part000 tok =
        Inr \<lparr> name = js_replace (js_trim tok) ''?'' [], type = ''string'',
              isOptional = js_includes (js_trim tok) ''?'' \<rparr>"
      by (rule parseField_part000_no_colon)
  qed
  have f: "entityName \<noteq> [] \<longrightarrow>
        fst (main_part000 (entityName # rest) w) = None
      \<and> length (written (snd (main_part000 (entityName # rest) w))) = length (written w) + 6"
    using main_part000_succeeds main_part000_six_files by blast
  show ?thesis
    by (intro conjI a c f main_scripts_empty parseFields_part000_total main_part000_empty_spec)
qed


theorem malformed_spec_witness:
  \<open>main_scripts (\<lambda>n. ''2026-11-02T16:16:05.123Z'') [''product'', ''price:number,name'']
      \<lparr> disk = (\<lambda>path. None), written = [], clock = (\<lambda>n. 1730563200123), ticks = 0 \<rparr> =
     (Some TypeError,
      \<lparr> disk = (\<lambda>path. None), written = [], clock = (\<lambda>n. 1730563200123), ticks = 0 \<rparr>)
   \<and> parseField_part000 ''name'' = Inr \<lparr> name = ''name'', type = ''string'', isOptional = False \<rparr>
   \<and> fst (main_part000 [''product'']
          \<lparr> disk = (\<lambda>path. None), written = [], clock = (\<lambda>n. 1730563200123), ticks = 0 \<rparr>) = None
   \<and> length (written (snd (main_part000 [''product'']
          \<lparr> disk = (\<lambda>path. None), written = [], clock = (\<lambda>n. 1730563200123), ticks = 0 \<rparr>))) = 6\<close>
proof -
  let ?w = "\<lparr> disk = (\<lambda>path. None), written = [], clock = (\<lambda>n. 1730563200123), ticks = 0 \<rparr>"
  let ?iso = "\<lambda>n::nat. ''2026-11-02T16:16:05.123Z''"
  have m: "''name'' \<in> set (js_split (CHR '','') ''price:number,name'')"
    and n: "CHR '':'' \<notin> set ''name''"
    and e: "''product'' \<noteq> []"
    by simp_all
  note t = malformed_spec [of "''name''" "''price:number,name''" ?iso "''product''" ?w "[]"]
  from t m n have r1: "main_scripts ?iso [''product'', ''price:number,name''] ?w = (Some TypeError, ?w)"
    by blast
  from t n have r2: "parseField_part000 ''name'' =
        Inr \<lparr> name = js_replace (js_trim ''name'') ''?'' [], type = ''string'',
              isOptional = js_includes (js_trim ''name'') ''?'' \<rparr>"
    by blast
  from t e have r3: "fst (main_part000 [''product''] ?w) = None
      \<and> length (written (snd (main_part000 [''product''] ?w))) = length (written ?w) + 6"
    by blast
  from r1 r2 r3 show ?thesis
    by (simp add: js_trim_def isSpace_def js_includes_Cons js_includes_Nil)
qed

section \<open>Resolved types\<close>

lemma letters_disjoint: "c \<in> set lowerLetters \<Longrightarrow> c \<notin> set upperLetters"
  by (auto simp: lowerLetters_def upperLetters_def)

lemma lowerChar_not_upper: "lowerChar d \<notin> set upperLetters"
proof (cases "map_of (zip upperLetters lowerLetters) d")
  case None
  have "length upperLetters = length lowerLetters"
    by (simp add: upperLetters_def lowerLetters_def)
  then have "map fst (zip upperLetters lowerLetters) = upperLetters"
    by (rule map_fst_zip)
  then have "fst ` set (zip upperLetters lowerLetters) = set upperLetters"
    by (metis set_map)
  with None have "d \<notin> set upperLetters"
    by (metis map_of_eq_None_iff)
  with None show ?thesis by (simp add: lowerChar_def)
next
  case (Some x)
  then have "(d, x) \<in> set (zip upperLetters lowerLetters)" by (rule map_of_SomeD)
  then have "x \<in> set lowerLetters" by (rule set_zip_rightD)
  with Some show ?thesis by (simp add: lowerChar_def letters_disjoint)
qed

lemma toLowerCase_no_upper: "c \<in> set upperLetters \<Longrightarrow> c \<notin> set (toLowerCase s)"
  using lowerChar_not_upper by (auto simp: toLowerCase_def)

lemma inherited_lookup:
  assumes "toLowerCase rawType \<noteq> ''constructor''" "toLowerCase rawType \<noteq> ''__proto__''"
  shows "map_of inherited (toLowerCase rawType) = None"
proof -
  have u: "toLowerCase rawType \<noteq> k" if "c \<in> set upperLetters" "c \<in> set k" for c k
    using that toLowerCase_no_upper [of c rawType] by blast
  have "toLowerCase rawType \<noteq> ''__defineGetter__''"
    by (rule u [of "CHR ''G''"]) (simp_all add: upperLetters_def)
  moreover have "toLowerCase rawType \<noteq> ''__defineSetter__''"
    by (rule u [of "CHR ''S''"]) (simp_all add: upperLetters_def)
  moreover have "toLowerCase rawType \<noteq> ''hasOwnProperty''"
    by (rule u [of "CHR ''O''"]) (simp_all add: upperLetters_def)
  moreover have "toLowerCase rawType \<noteq> ''__lookupGetter__''"
    by (rule u [of "CHR ''G''"]) (simp_all add: upperLetters_def)
  moreover have "toLowerCase rawType \<noteq> ''__lookupSetter__''"
    by (rule u [of "CHR ''S''"]) (simp_all add: upperLetters_def)
  moreover have "toLowerCase rawType \<noteq> ''isPrototypeOf''"
    by (rule u [of "CHR ''P''"]) (simp_all add: upperLetters_def)
  moreover have "toLowerCase rawType \<noteq> ''propertyIsEnumerable''"
    by (rule u [of "CHR ''I''"]) (simp_all add: upperLetters_def)
  moreover have "toLowerCase rawType \<noteq> ''toString''"
    by (rule u [of "CHR ''S''"]) (simp_all add: upperLetters_def)
  moreover have "toLowerCase rawType \<noteq> ''valueOf''"
    by (rule u [of "CHR ''O''"]) (simp_all add: upperLetters_def)
  moreover have "toLowerCase rawType \<noteq> ''toLocaleString''"
    by (rule u [of "CHR ''L''"]) (simp_all add: upperLetters_def)
  ultimately show ?thesis
    using assms by (simp add: inherited_def)
qed

lemma getTypes_part000:
  assumes "toLowerCase rawType \<noteq> ''constructor''" "toLowerCase rawType \<noteq> ''__proto__''"
  shows "getTypeScriptType rawType = Str (fst (spec_typeMapping rawType))"
    and "getTypeORMType rawType = Str (snd (spec_typeMapping rawType))"
proof -
  note i = inherited_lookup [OF assms]
  show "getTypeScriptType rawType = Str (fst (spec_typeMapping rawType))"
    using i by (simp add: getTypeScriptType_def js_get_def typeMap_ts_def js_or_def truthy_def
        spec_typeMapping_def Let_def)
  show "getTypeORMType rawType = Str (snd (spec_typeMapping rawType))"
    using i by (simp add: getTypeORMType_def js_get_def typeMap_orm_def js_or_def truthy_def
        spec_typeMapping_def Let_def)
qed

lemma inherited_property_tokens:
  "getTypeScriptType ''constructor'' = NativeFunction ''Object''"
  "getTypeORMType ''__proto__'' = ObjectPrototype"
  by (simp_all add: getTypeScriptType_def getTypeORMType_def js_get_def typeMap_ts_def
        typeMap_orm_def inherited_def js_or_def truthy_def toLowerCase_def lowerChar_def
        upperLetters_def lowerLetters_def)

text \<open>
  Claim C2, as the spec states it, fails on \<^verbatim>\<open>scripts/generate-crud.js\<close>, whose parser
  knows four type tokens only and passes any other token through: the token
  \<^verbatim>\<open>uuid\<close> resolves to the value type \<^verbatim>\<open>uuid\<close> with a \<^verbatim>\<open>varchar\<close> migration column
  (the claim: \<^verbatim>\<open>string\<close> and \<^verbatim>\<open>uuid\<close>), and \<^verbatim>\<open>number\<close> gets an \<^verbatim>\<open>int\<close> column
  (the claim: \<^verbatim>\<open>numeric\<close>).
\<close>

theorem type_resolution_counterexample:
  \<open>parseField_scripts ''ref:uuid'' =
     Inr \<lparr> name = ''ref'', type = ''uuid'', isOptional = False, decorators = [''@Column()''] \<rparr>
   \<and> columnType \<lparr> name = ''ref'', type = ''uuid'', isOptional = False,
                   decorators = [''@Column()''] \<rparr> = sq @ ''varchar'' @ sq
   \<and> spec_typeMapping ''uuid'' = (''string'', ''uuid'')
   \<and> parseField_scripts ''price:number'' =
     Inr \<lparr> name = ''price'', type = ''number'', isOptional = False,
           decorators = [''@Column({ type: "int" })''] \<rparr>
   \<and> columnType \<lparr> name = ''price'', type = ''number'', isOptional = False,
                   decorators = [''@Column({ type: "int" })''] \<rparr> = sq @ ''int'' @ sq
   \<and> spec_typeMapping ''number'' = (''number'', ''numeric'')\<close>
  by (simp add: parseField_scripts_def js_trim_def isSpace_def js_index_def js_includes_Cons
        js_includes_Nil resolveType_scripts_def toLowerCase_def lowerChar_def upperLetters_def
        lowerLetters_def columnType_def spec_typeMapping_def)

text \<open>
  Claim C2, amended. In \<^verbatim>\<open>unnamed/part_000\<close>, for every raw type token whose lower-case
  form is not the name of a property that the table object inherits (\<^verbatim>\<open>constructor\<close>,
  \<^verbatim>\<open>__proto__\<close>), the two resolved types are those of the specification's mapping,
  matched case-insensitively, with \<^verbatim>\<open>string\<close> and \<^verbatim>\<open>varchar\<close> for an unrecognized
  token, and the interface, data-model and migration emitters all write these two
  types for the field. In \<^verbatim>\<open>scripts/generate-crud.js\<close> the tokens \<^verbatim>\<open>string\<close>,
  \<^verbatim>\<open>number\<close>, \<^verbatim>\<open>boolean\<close> and \<^verbatim>\<open>date\<close> (in any case) resolve to \<^verbatim>\<open>string\<close>,
  \<^verbatim>\<open>number\<close>, \<^verbatim>\<open>boolean\<close> and \<^verbatim>\<open>Date\<close>, and any other token resolves to itself; the
  migration column is \<^verbatim>\<open>int\<close>, \<^verbatim>\<open>boolean\<close>, \<^verbatim>\<open>timestamp\<close> for the resolved types
  \<^verbatim>\<open>number\<close>, \<^verbatim>\<open>boolean\<close>, \<^verbatim>\<open>Date\<close> and \<^verbatim>\<open>varchar\<close> for every other.
\<close>

theorem type_resolution:
  fixes f :: field and g :: field_scripts
  shows
  \<open>(toLowerCase rawType \<noteq> ''constructor'' \<and> toLowerCase rawType \<noteq> ''__proto__'' \<longrightarrow>
        getTypeScriptType rawType = Str (fst (spec_typeMapping rawType))
      \<and> getTypeORMType rawType = Str (snd (spec_typeMapping rawType)))
   \<and> (toLowerCase (type f) \<noteq> ''constructor'' \<and> toLowerCase (type f) \<noteq> ''__proto__'' \<longrightarrow>
        interfaceField f =
          ''  '' @ name f @ (if isOptional f then ''?'' else []) @ '': '' @ fst (spec_typeMapping (type f)) @ '';''
      \<and> entityField f =
          ''  @Column({ type: '' @ sq @ snd (spec_typeMapping (type f)) @ sq @ '', nullable: '' @ show_bool (isOptional f) @ '' })\<newline>'' @
          ''  '' @ name f @ (if isOptional f then ''?'' else []) @ '': '' @ fst (spec_typeMapping (type f)) @ '';''
      \<and> migrationField f =
          ''          {\<newline>'' @
          ''            name: '' @ sq @ name f @ sq @ '',\<newline>'' @
          ''            type: '' @ sq @ snd (spec_typeMapping (type f)) @ sq @ '',\<newline>'' @
          ''            isNullable: '' @ show_bool (isOptional f) @ '',\<newline>'' @
          ''          },'')
   \<and> (toLowerCase rawType = ''string'' \<longrightarrow> resolveType_scripts rawType = (''string'', [''@Column()'']))
   \<and> (toLowerCase rawType = ''number'' \<longrightarrow>
        resolveType_scripts rawType = (''number'', [''@Column({ type: "int" })'']))
   \<and> (toLowerCase rawType = ''boolean'' \<longrightarrow>
        resolveType_scripts rawType = (''boolean'', [''@Column({ type: "boolean" })'']))
   \<and> (toLowerCase rawType = ''date'' \<longrightarrow>
        resolveType_scripts rawType = (''Date'', [''@Column({ type: "timestamp" })'']))
   \<and> (toLowerCase rawType \<notin> {''string'', ''number'', ''boolean'', ''date''} \<longrightarrow>
        resolveType_scripts rawType = (rawType, [''@Column()'']))
   \<and> (type g = ''number'' \<longrightarrow> columnType g = sq @ ''int'' @ sq)
   \<and> (type g = ''boolean'' \<longrightarrow> columnType g = sq @ ''boolean'' @ sq)
   \<and> (type g = ''Date'' \<longrightarrow> columnType g = sq @ ''timestamp'' @ sq)
   \<and> (type g \<notin> {''number'', ''boolean'', ''Date''} \<longrightarrow> columnType g = sq @ ''varchar'' @ sq)\<close>
proof -
  have a: \<open>toLowerCase rawType \<noteq> ''constructor'' \<and> toLowerCase rawType \<noteq> ''__proto__'' \<longrightarrow>
        getTypeScriptType rawType = Str (fst (spec_typeMapping rawType))
      \<and> getTypeORMType rawType = Str (snd (spec_typeMapping rawType))\<close>
    using getTypes_part000 by blast
  have b: \<open>toLowerCase (type f) \<noteq> ''constructor'' \<and> toLowerCase (type f) \<noteq> ''__proto__'' \<longrightarrow>
        interfaceField f =
          ''  '' @ name f @ (if isOptional f then ''?'' else []) @ '': '' @ fst (spec_typeMapping (type f)) @ '';''
      \<and> entityField f =
          ''  @Column({ type: '' @ sq @ snd (spec_typeMapping (type f)) @ sq @ '', nullable: '' @ show_bool (isOptional f) @ '' })\<newline>'' @
          ''  '' @ name f @ (if isOptional f then ''?'' else []) @ '': '' @ fst (spec_typeMapping (type f)) @ '';''
      \<and> migrationField f =
          ''          {\<newline>'' @
          ''            name: '' @ sq @ name f @ sq @ '',\<newline>'' @
          ''            type: '' @ sq @ snd (spec_typeMapping (type f)) @ sq @ '',\<newline>'' @
          ''            isNullable: '' @ show_bool (isOptional f) @ '',\<newline>'' @
          ''          },''\<close>
  proof (intro impI, elim conjE)
    assume n: "toLowerCase (type f) \<noteq> ''constructor''" "toLowerCase (type f) \<noteq> ''__proto__''"
    note t = getTypes_part000 [OF n]
    show \<open>interfaceField f =
          ''  '' @ name f @ (if isOptional f then ''?'' else []) @ '': '' @ fst (spec_typeMapping (type f)) @ '';''
      \<and> entityField f =
          ''  @Column({ type: '' @ sq @ snd (spec_typeMapping (type f)) @ sq @ '', nullable: '' @ show_bool (isOptional f) @ '' })\<newline>'' @
          ''  '' @ name f @ (if isOptional f then ''?'' else []) @ '': '' @ fst (spec_typeMapping (type f)) @ '';''
      \<and> migrationField f =
          ''          {\<newline>'' @
          ''            name: '' @ sq @ name f @ sq @ '',\<newline>'' @
          ''            type: '' @ sq @ snd (spec_typeMapping (type f)) @ sq @ '',\<newline>'' @
          ''            isNullable: '' @ show_bool (isOptional f) @ '',\<newline>'' @
          ''          },''\<close>
      by (simp add: interfaceField_def entityField_def migrationField_def t js_toString_def)
  qed
  have c: \<open>toLowerCase rawType = ''string'' \<longrightarrow> resolveType_scripts rawType = (''string'', [''@Column()''])\<close>
    and d: \<open>toLowerCase rawType = ''number'' \<longrightarrow>
        resolveType_scripts rawType = (''number'', [''@Column({ type: "int" })''])\<close>
    and e: \<open>toLowerCase rawType = ''boolean'' \<longrightarrow>
        resolveType_scripts rawType = (''boolean'', [''@Column({ type: "boolean" })''])\<close>
    and h: \<open>toLowerCase rawType = ''date'' \<longrightarrow>
        resolveType_scripts rawType = (''Date'', [''@Column({ type: "timestamp" })''])\<close>
    and i: \<open>toLowerCase rawType \<notin> {''string'', ''number'', ''boolean'', ''date''} \<longrightarrow>
        resolveType_scripts rawType = (rawType, [''@Column()''])\<close>
    by (simp_all add: resolveType_scripts_def Let_def)
  have j: \<open>type g = ''number'' \<longrightarrow> columnType g = sq @ ''int'' @ sq\<close>
    and k: \<open>type g = ''boolean'' \<longrightarrow> columnType g = sq @ ''boolean'' @ sq\<close>
    and l: \<open>type g = ''Date'' \<longrightarrow> columnType g = sq @ ''timestamp'' @ sq\<close>
    and m: \<open>type g \<notin> {''number'', ''boolean'', ''Date''} \<longrightarrow> columnType g = sq @ ''varchar'' @ sq\<close>
    by (simp_all add: columnType_def Let_def)
  show ?thesis
    by (intro conjI a b c d e h i j k l m)
qed


theorem type_resolution_witness:
  \<open>getTypeScriptType ''UUID'' = Str ''string''
   \<and> getTypeORMType ''UUID'' = Str ''uuid''
   \<and> getTypeScriptType ''Money'' = Str ''string''
   \<and> getTypeORMType ''Money'' = Str ''varchar''
   \<and> resolveType_scripts ''Number'' = (''number'', [''@Column({ type: "int" })''])
   \<and> resolveType_scripts ''Money'' = (''Money'', [''@Column()''])\<close>
proof -
  have l: "toLowerCase ''UUID'' = ''uuid''" "toLowerCase ''Money'' = ''money''"
    "toLowerCase ''Number'' = ''number''"
    by (simp_all add: toLowerCase_def lowerChar_def upperLetters_def lowerLetters_def)
  from type_resolution [of "''UUID''"] l
  have r1: "getTypeScriptType ''UUID'' = Str (fst (spec_typeMapping ''UUID''))
      \<and> getTypeORMType ''UUID'' = Str (snd (spec_typeMapping ''UUID''))"
    by simp
  from type_resolution [of "''Money''"] l
  have r2: "getTypeScriptType ''Money'' = Str (fst (spec_typeMapping ''Money''))
      \<and> getTypeORMType ''Money'' = Str (snd (spec_typeMapping ''Money''))"
    and r3: "resolveType_scripts ''Money'' = (''Money'', [''@Column()''])"
    by simp_all
  from type_resolution [of "''Number''"] l
  have r4: \<open>resolveType_scripts ''Number'' = (''number'', [''@Column({ type: "int" })''])\<close>
    by simp
  from r1 r2 r3 r4 l show ?thesis
    by (simp add: spec_typeMapping_def)
qed

section \<open>Fields whose name contains \<^verbatim>\<open>id\<close>\<close>

text \<open>
  Claim C8 at the specification \<^verbatim>\<open>width:number\<close> of an entity \<^verbatim>\<open>item\<close>, in
  \<^verbatim>\<open>scripts/generate-crud.js\<close>: the name \<^verbatim>\<open>width\<close> contains \<^verbatim>\<open>id\<close>, so the field is a
  column of the data model but is left out of the create DTO and of the migration.
  (The name \<^verbatim>\<open>parentId\<close> does not contain the lower-case \<^verbatim>\<open>id\<close>.)
\<close>

theorem id_substring_filter_excludes_width:
  \<open>parseFields_scripts ''width:number'' =
     Inr [\<lparr> name = ''width'', type = ''number'', isOptional = False,
            decorators = [''@Column({ type: "int" })''] \<rparr>]
   \<and> js_includes ''width'' ''id''
   \<and> entityField_scripts \<lparr> name = ''width'', type = ''number'', isOptional = False,
            decorators = [''@Column({ type: "int" })''] \<rparr> =
       ''  @Column({ type: "int" })\<newline>  width: number;\<newline>\<newline>''
   \<and> createDtoField \<lparr> name = ''width'', type = ''number'', isOptional = False,
            decorators = [''@Column({ type: "int" })''] \<rparr> = []
   \<and> migrationColumn_scripts \<lparr> name = ''width'', type = ''number'', isOptional = False,
            decorators = [''@Column({ type: "int" })''] \<rparr> = []
   \<and> generateCreateDto ''item'' [\<lparr> name = ''width'', type = ''number'', isOptional = False,
            decorators = [''@Column({ type: "int" })''] \<rparr>] =
       ''export class CreateItemDto {\<newline>}''
   \<and> \<not> js_includes ''parentId'' ''id''\<close>
  by (simp add: parseFields_scripts_def parseField_scripts_def js_trim_def isSpace_def
        js_index_def js_includes_Cons js_includes_Nil resolveType_scripts_def toLowerCase_def
        lowerChar_def upperLetters_def lowerLetters_def entityField_scripts_def
        createDtoField_def migrationColumn_scripts_def generateCreateDto_def
        validationImports_def toPascalCase_def toUpperCase_def upperChar_def)

section \<open>The timestamp members of \<^verbatim>\<open>unnamed/part_000\<close>\<close>







end
